theory Spec2Isabelle
  imports Complex_Main
begin

section \<open>The reasoning module of Enviro-Comply (\<open>src/agents/reasoning.py\<close>)\<close>

text \<open>
  The development embeds \<open>ReasoningStep\<close>, \<open>ReasoningChain\<close>, the three
  \<open>reason_about_*\<close> methods of \<open>ChainOfThoughtReasoner\<close> and \<open>ConfidenceCalibrator\<close>.

  Conventions of the embedding:
  \<^item> a Python \<open>float\<close> is a \<open>real\<close>: the arithmetic of the source is read exactly, without
    the rounding of binary floating point, except where a bound on the returned float is
    at stake: there the operations round to binary64 (see \<open>binary64\<close>); a Python \<open>int\<close>
    is an \<open>int\<close> or a \<open>nat\<close>;
  \<^item> a Python \<open>str\<close> is a \<open>string\<close> of ASCII characters; \<open>lower\<close>, \<open>upper\<close> and the
    character classes of \<open>re\<close> are the ASCII ones;
  \<^item> the \<open>Dict[str, Any]\<close> records handed to the reasoner are records whose fields are
    \<open>option\<close>s: \<open>None\<close> is a key that is absent, which \<open>dict.get\<close> replaces by its default;
  \<^item> an f-string is kept as the list of its pieces: literal text, and every interpolated
    number together with its format specification, not yet rendered into decimal digits;
  \<^item> \<open>datetime.utcnow()\<close> is an input \<open>now\<close> of the operation that reads the clock,
    a count of microseconds; \<open>datetime.fromisoformat\<close> (standard library) is a parameter
    that returns either the error it raises or the parsed value;
  \<^item> mutation of \<open>self\<close> is state passing: an operation returns the new object.
\<close>

subsection \<open>Strings\<close>

definition lower_char :: "char \<Rightarrow> char" where
  "lower_char c =
     (case map_of (zip ''ABCDEFGHIJKLMNOPQRSTUVWXYZ'' ''abcdefghijklmnopqrstuvwxyz'') c of
        Some d \<Rightarrow> d | None \<Rightarrow> c)"

definition upper_char :: "char \<Rightarrow> char" where
  "upper_char c =
     (case map_of (zip ''abcdefghijklmnopqrstuvwxyz'' ''ABCDEFGHIJKLMNOPQRSTUVWXYZ'') c of
        Some d \<Rightarrow> d | None \<Rightarrow> c)"

definition lower :: "string \<Rightarrow> string" where
  "lower s = map lower_char s"

definition upper :: "string \<Rightarrow> string" where
  "upper s = map upper_char s"

text \<open>\<open>s.startswith(p)\<close>, and \<open>p in s\<close> for strings.\<close>

fun startswith :: "string \<Rightarrow> string \<Rightarrow> bool" where
  "startswith s [] = True"
| "startswith [] (p # ps) = False"
| "startswith (c # cs) (p # ps) = (c = p \<and> startswith cs ps)"

fun str_in :: "string \<Rightarrow> string \<Rightarrow> bool" where
  "str_in p [] = (p = [])"
| "str_in p (c # cs) = (startswith (c # cs) p \<or> str_in p cs)"

text \<open>\<open>sep.join(xs)\<close>.\<close>

fun join :: "string \<Rightarrow> string list \<Rightarrow> string" where
  "join sep [] = []"
| "join sep [x] = x"
| "join sep (x # y # ys) = x @ sep @ join sep (y # ys)"

text \<open>\<open>d.get(key, default)\<close> for a key that may be absent.\<close>

definition get_or :: "'a \<Rightarrow> 'a option \<Rightarrow> 'a" where
  "get_or d x = (case x of None \<Rightarrow> d | Some v \<Rightarrow> v)"

subsection \<open>Formatted text\<close>

text \<open>
  One piece of an f-string: literal or interpolated text, \<open>{n}\<close> for an integer,
  \<open>{x:.2f}\<close>, \<open>{x:.0f}\<close> and \<open>{x:,.0f}\<close> for a float.
\<close>

datatype piece = Txt string | IntP int | Fix2 real | Fix0 real | Comma0 real

type_synonym fstring = "piece list"

subsection \<open>Reasoning steps and chains\<close>

datatype ReasoningType = OBSERVATION | ANALYSIS | INFERENCE | DECISION | VALIDATION

type_synonym datetime = int

record ReasoningStep =
  step_number :: nat
  step_type :: ReasoningType
  content :: fstring
  confidence :: real
  evidence :: "fstring list"
  timestamp :: datetime

record ReasoningChain =
  task_id :: string
  agent_type :: string
  question :: string
  steps :: "ReasoningStep list"
  final_answer :: "fstring option"
  final_confidence :: real
  started_at :: datetime
  completed_at :: "datetime option"

text \<open>The constructor with the defaults of the dataclass; \<open>now\<close> is the clock it reads.\<close>

definition new_chain :: "string \<Rightarrow> string \<Rightarrow> string \<Rightarrow> datetime \<Rightarrow> ReasoningChain" where
  "new_chain tid agent q now =
     \<lparr>task_id = tid, agent_type = agent, question = q, steps = [],
      final_answer = None, final_confidence = 0, started_at = now, completed_at = None\<rparr>"

text \<open>
  \<open>ReasoningChain.add_step\<close>: the created step and the chain with the step appended.
  The evidence argument defaults to \<open>None\<close>, which \<open>evidence or []\<close> turns into \<open>[]\<close>.
\<close>

definition add_step ::
  "ReasoningChain \<Rightarrow> ReasoningType \<Rightarrow> fstring \<Rightarrow> real \<Rightarrow> fstring list option \<Rightarrow> datetime
     \<Rightarrow> ReasoningStep \<times> ReasoningChain" where
  "add_step chain ty txt conf ev now =
     (let step = \<lparr>step_number = length (steps chain) + 1, step_type = ty, content = txt,
                  confidence = conf, evidence = get_or [] ev, timestamp = now\<rparr>
      in (step, chain\<lparr>steps := steps chain @ [step]\<rparr>))"

definition complete :: "ReasoningChain \<Rightarrow> fstring \<Rightarrow> real \<Rightarrow> datetime \<Rightarrow> ReasoningChain" where
  "complete chain answer conf now =
     chain\<lparr>final_answer := Some answer, final_confidence := conf, completed_at := Some now\<rparr>"

text \<open>
  \<open>to_dict\<close> of a step and of a chain. Timestamps stay counts of microseconds instead of
  ISO strings; \<open>duration_ms\<close> is \<open>total_seconds() * 1000\<close>.
\<close>

record step_dict =
  sd_step :: nat
  sd_type :: string
  sd_content :: fstring
  sd_confidence :: real
  sd_evidence :: "fstring list"
  sd_timestamp :: datetime

record chain_dict =
  cd_task_id :: string
  cd_agent_type :: string
  cd_question :: string
  cd_steps :: "step_dict list"
  cd_final_answer :: "fstring option"
  cd_final_confidence :: real
  cd_started_at :: datetime
  cd_completed_at :: "datetime option"
  cd_duration_ms :: "real option"

fun type_value :: "ReasoningType \<Rightarrow> string" where
  "type_value OBSERVATION = ''observation''"
| "type_value ANALYSIS = ''analysis''"
| "type_value INFERENCE = ''inference''"
| "type_value DECISION = ''decision''"
| "type_value VALIDATION = ''validation''"

definition step_to_dict :: "ReasoningStep \<Rightarrow> step_dict" where
  "step_to_dict s =
     \<lparr>sd_step = step_number s, sd_type = type_value (step_type s), sd_content = content s,
      sd_confidence = confidence s, sd_evidence = evidence s, sd_timestamp = timestamp s\<rparr>"

definition to_dict :: "ReasoningChain \<Rightarrow> chain_dict" where
  "to_dict chain =
     \<lparr>cd_task_id = task_id chain, cd_agent_type = agent_type chain,
      cd_question = question chain, cd_steps = map step_to_dict (steps chain),
      cd_final_answer = final_answer chain, cd_final_confidence = final_confidence chain,
      cd_started_at = started_at chain, cd_completed_at = completed_at chain,
      cd_duration_ms =
        (case completed_at chain of
           None \<Rightarrow> None
         | Some t \<Rightarrow> Some (real_of_int (t - started_at chain) / 1000000 * 1000))\<rparr>"

text \<open>
  A caller's use of a chain: a sequence of \<open>add_step\<close> and \<open>complete\<close> calls, each with the
  clock reading of that call.
\<close>

datatype chain_call =
  AddStep ReasoningType fstring real "fstring list option" datetime
| Complete fstring real datetime

fun call_chain :: "ReasoningChain \<Rightarrow> chain_call \<Rightarrow> ReasoningChain" where
  "call_chain chain (AddStep ty txt conf ev now) = snd (add_step chain ty txt conf ev now)"
| "call_chain chain (Complete answer conf now) = complete chain answer conf now"

definition run_calls :: "ReasoningChain \<Rightarrow> chain_call list \<Rightarrow> ReasoningChain" where
  "run_calls chain calls = foldl call_chain chain calls"

fun is_add_step :: "chain_call \<Rightarrow> bool" where
  "is_add_step (AddStep ty txt conf ev now) = True"
| "is_add_step (Complete answer conf now) = False"

subsection \<open>The reasoner\<close>

record ChainOfThoughtReasoner =
  cot_agent_type :: string
  chains :: "ReasoningChain list"

definition new_reasoner :: "string \<Rightarrow> ChainOfThoughtReasoner" where
  "new_reasoner agent = \<lparr>cot_agent_type = agent, chains = []\<rparr>"

definition start_chain ::
  "ChainOfThoughtReasoner \<Rightarrow> string \<Rightarrow> string \<Rightarrow> datetime
     \<Rightarrow> ReasoningChain \<times> ChainOfThoughtReasoner" where
  "start_chain self tid q now =
     (let chain = new_chain tid (cot_agent_type self) q now
      in (chain, self\<lparr>chains := chains self @ [chain]\<rparr>))"

text \<open>
  The chain that \<open>start_chain\<close> returns is the object it appended to \<open>self.chains\<close>:
  what a method does to the chain afterwards is seen through the list. In the model the
  method works on the chain as a value and stores it back in the last position.
\<close>

definition store_chain :: "ChainOfThoughtReasoner \<Rightarrow> ReasoningChain \<Rightarrow> ChainOfThoughtReasoner" where
  "store_chain self chain = self\<lparr>chains := butlast (chains self) @ [chain]\<rparr>"

subsection \<open>Relevance of a regulation\<close>

record regulation =
  reg_id :: "string option"
  reg_title :: "string option"
  reg_description :: "string option"
  reg_citation :: "string option"

definition og_keywords :: "string list" where
  "og_keywords =
     [''oil'', ''gas'', ''petroleum'', ''natural gas'', ''crude oil'',
      ''wellsite'', ''wellhead'', ''compressor'', ''gathering'',
      ''processing'', ''transmission'', ''storage tank'', ''pneumatic'',
      ''fugitive emissions'', ''ldar'', ''methane'', ''voc'']"

text \<open>Step 2 of the method: the keywords found in the lowered title and description.\<close>

definition found_keywords :: "regulation \<Rightarrow> string list" where
  "found_keywords regulation =
     (let title = lower (get_or [] (reg_title regulation));
          description = lower (get_or [] (reg_description regulation));
          text_to_search = title @ '' '' @ description
      in filter (\<lambda>kw. str_in kw text_to_search) og_keywords)"

definition keyword_confidence :: "regulation \<Rightarrow> real" where
  "keyword_confidence regulation = min (real (length (found_keywords regulation)) / 3) 1"

text \<open>Step 3: the \<open>if\<close>/\<open>elif\<close> chain on the citation, relevance and evidence.\<close>

definition cfr_analysis :: "string \<Rightarrow> real \<times> fstring list" where
  "cfr_analysis citation =
     (if str_in ''40 CFR 60'' citation then
        (8 / 10, [[Txt ''40 CFR 60 (NSPS) - includes O&G subparts OOOO, OOOOa, OOOOb'']])
      else if str_in ''40 CFR 63'' citation then
        (7 / 10, [[Txt ''40 CFR 63 (NESHAP) - includes O&G subpart HH'']])
      else if str_in ''40 CFR 98'' citation then
        (6 / 10, [[Txt ''40 CFR 98 (GHG Reporting) - includes O&G subpart W'']])
      else (0, []))"

definition reason_about_regulation_relevance ::
  "ChainOfThoughtReasoner \<Rightarrow> regulation \<Rightarrow> string \<Rightarrow> datetime
     \<Rightarrow> (bool \<times> real \<times> ReasoningChain) \<times> ChainOfThoughtReasoner" where
  "reason_about_regulation_relevance self regulation target_industry now =
     (let (chain0, self1) =
            start_chain self (''rel_'' @ get_or ''unknown'' (reg_id regulation))
              (''Is '' @ [CHR 0x27] @ get_or ''Unknown'' (reg_title regulation) @ [CHR 0x27]
                 @ '' relevant to '' @ target_industry @ ''?'') now;
          title = lower (get_or [] (reg_title regulation));
          citation = get_or [] (reg_citation regulation);
          chain1 = snd (add_step chain0 OBSERVATION
            [Txt ''Examining regulation: '', Txt citation, Txt '' - '',
             Txt (get_or ''Unknown'' (reg_title regulation))]
            1
            (Some [[Txt ''Title: '', Txt (take 100 title), Txt ''...''],
                   [Txt ''Citation: '', Txt citation]]) now);
          found = found_keywords regulation;
          kw_conf = keyword_confidence regulation;
          chain2 = snd (add_step chain1 ANALYSIS
            [Txt ''Searched for '', IntP (int (length og_keywords)),
             Txt '' O&G keywords in regulation text'']
            kw_conf
            (Some (if found \<noteq> [] then [[Txt ''Found keywords: '', Txt (join '', '' (take 5 found))]]
                   else [[Txt ''No keywords found'']])) now);
          (cfr_relevance, cfr_evidence) = cfr_analysis citation;
          chain3 = (if cfr_relevance > 0 then
                      snd (add_step chain2 ANALYSIS
                        [Txt ''CFR citation analysis indicates potential O&G applicability'']
                        cfr_relevance (Some cfr_evidence) now)
                    else chain2);
          combined_score = kw_conf * (6 / 10) + cfr_relevance * (4 / 10);
          is_relevant = (combined_score > 3 / 10);
          chain4 = snd (add_step chain3 INFERENCE
            [Txt ''Combined analysis suggests '',
             Txt (if combined_score > 6 / 10 then ''HIGH''
                  else if combined_score > 3 / 10 then ''MODERATE'' else ''LOW''),
             Txt '' relevance'']
            combined_score
            (Some [[Txt ''Keyword score: '', Fix2 kw_conf],
                   [Txt ''CFR relevance: '', Fix2 cfr_relevance],
                   [Txt ''Combined: '', Fix2 combined_score]]) now);
          chain5 = (if is_relevant \<and> combined_score < 5 / 10 then
                      snd (add_step chain4 VALIDATION
                        [Txt ''Low confidence relevance - recommend manual review'']
                        combined_score
                        (Some [[Txt ''Borderline score warrants human verification'']]) now)
                    else chain4);
          chain6 = complete chain5
            [Txt (if is_relevant then ''RELEVANT'' else ''NOT RELEVANT'')] combined_score now
      in ((is_relevant, combined_score, chain6), store_chain self1 chain6))"

subsection \<open>Severity of a gap\<close>

record gap =
  g_id :: "string option"
  g_title :: "string option"
  g_description :: "string option"
  g_gap_type :: "string option"
  g_regulation_id :: "string option"
  g_regulatory_deadline :: "string option"

record facility =
  fac_name :: "string option"
  fac_is_major_source :: "bool option"

text \<open>
  What \<open>datetime.fromisoformat\<close> returns: the wall-clock reading in microseconds and the
  UTC offset, if the string carries one. \<open>replace(tzinfo=None)\<close> keeps the reading and
  drops the offset. The \<open>days\<close> of a \<open>timedelta\<close> round towards minus infinity.
\<close>

datatype py_error = ValueError | TypeError

record py_datetime =
  dt_wall :: int
  dt_tzinfo :: "int option"

definition replace_tzinfo_None :: "py_datetime \<Rightarrow> datetime" where
  "replace_tzinfo_None d = dt_wall d"

definition timedelta_days :: "int \<Rightarrow> int" where
  "timedelta_days us = us div 86400000000"

text \<open>\<open>deadline.replace('Z', '+00:00')\<close>.\<close>

definition replace_Z :: "string \<Rightarrow> string" where
  "replace_Z s = concat (map (\<lambda>c. if c = CHR ''Z'' then ''+00:00'' else [c]) s)"

text \<open>The \<open>if\<close>/\<open>elif\<close> chain on \<open>days_until\<close>: severity, confidence and evidence.\<close>

definition deadline_bucket :: "int \<Rightarrow> string \<times> real \<times> fstring" where
  "deadline_bucket days_until =
     (if days_until < 0 then
        (''critical'', 95 / 100, [Txt ''Deadline PASSED '', IntP \<bar>days_until\<bar>, Txt '' days ago''])
      else if days_until < 30 then
        (''critical'', 9 / 10, [Txt ''Only '', IntP days_until, Txt '' days until deadline''])
      else if days_until < 90 then
        (''high'', 8 / 10, [IntP days_until, Txt '' days until deadline''])
      else if days_until < 180 then
        (''medium'', 7 / 10, [IntP days_until, Txt '' days until deadline''])
      else
        (''low'', 6 / 10, [IntP days_until, Txt '' days until deadline (>6 months)'']))"

text \<open>
  The body of the \<open>try\<close>: \<open>Inl\<close> is the exception that leaves it. Only the parse can
  raise, and it runs before anything is assigned or appended.
\<close>

definition deadline_try ::
  "(string \<Rightarrow> py_error + py_datetime) \<Rightarrow> datetime \<Rightarrow> string \<Rightarrow> ReasoningChain
     \<Rightarrow> py_error + (string \<times> real \<times> ReasoningChain)" where
  "deadline_try fromisoformat now deadline chain =
     (case fromisoformat (replace_Z deadline) of
        Inl e \<Rightarrow> Inl e
      | Inr deadline_date \<Rightarrow>
          (let days_until = timedelta_days (replace_tzinfo_None deadline_date - now);
               (deadline_severity, deadline_confidence, deadline_evidence) =
                  deadline_bucket days_until
           in Inr (deadline_severity, deadline_confidence,
                   snd (add_step chain ANALYSIS
                     [Txt ''Deadline analysis: '', Txt (upper deadline_severity), Txt '' urgency'']
                     deadline_confidence (Some [deadline_evidence]) now))))"

text \<open>
  Step 2 as a whole: the defaults, the test \<open>if deadline\<close> (an absent key and the empty
  string are false), and \<open>except: pass\<close>, which keeps the defaults and the chain.
\<close>

definition deadline_analysis ::
  "(string \<Rightarrow> py_error + py_datetime) \<Rightarrow> datetime \<Rightarrow> gap \<Rightarrow> ReasoningChain
     \<Rightarrow> string \<times> real \<times> ReasoningChain" where
  "deadline_analysis fromisoformat now gap chain =
     (case g_regulatory_deadline gap of
        None \<Rightarrow> (''low'', 5 / 10, chain)
      | Some deadline \<Rightarrow>
          if deadline = [] then (''low'', 5 / 10, chain)
          else (case deadline_try fromisoformat now deadline chain of
                  Inl e \<Rightarrow> (''low'', 5 / 10, chain)
                | Inr r \<Rightarrow> r))"

text \<open>
  The deadline factor by itself: the severity and the confidence of step 2, which do not
  depend on the chain that the step extends.
\<close>

definition deadline_factor ::
  "(string \<Rightarrow> py_error + py_datetime) \<Rightarrow> datetime \<Rightarrow> gap \<Rightarrow> string \<times> real" where
  "deadline_factor fromisoformat now gap =
     (let (deadline_severity, deadline_confidence, chain) =
            deadline_analysis fromisoformat now gap (new_chain [] [] [] 0)
      in (deadline_severity, deadline_confidence))"

definition enforcement_keywords :: "string list" where
  "enforcement_keywords = [''nsps'', ''neshap'', ''title v'', ''ghg reporting'', ''ldar'']"

text \<open>Step 3: the loop with \<open>break\<close> over the keywords, then the override.\<close>

definition enforcement_analysis :: "gap \<Rightarrow> string \<times> real" where
  "enforcement_analysis gap =
     (let regulation_id = lower (get_or [] (g_regulation_id gap));
          (enforcement_risk, enforcement_confidence) =
             (case find (\<lambda>kw. str_in kw regulation_id) enforcement_keywords of
                Some kw \<Rightarrow> (''high'', 8 / 10)
              | None \<Rightarrow> (''medium'', 5 / 10))
      in if str_in ''oooo'' regulation_id \<or> str_in ''methane'' (lower (get_or [] (g_title gap)))
         then (''high'', 85 / 100)
         else (enforcement_risk, enforcement_confidence))"

definition severity_scores :: "string \<rightharpoonup> int" where
  "severity_scores = map_of [(''critical'', 4), (''high'', 3), (''medium'', 2), (''low'', 1)]"

definition factor_scores :: "string list \<Rightarrow> int list" where
  "factor_scores factors = map (\<lambda>f. get_or 2 (severity_scores f)) factors"

definition avg_score_of :: "string list \<Rightarrow> real" where
  "avg_score_of factors = real_of_int (sum_list (factor_scores factors)) / real (length factors)"

definition bucket_severity :: "real \<Rightarrow> string" where
  "bucket_severity avg_score =
     (if avg_score \<ge> 35 / 10 then ''critical''
      else if avg_score \<ge> 25 / 10 then ''high''
      else if avg_score \<ge> 15 / 10 then ''medium''
      else ''low'')"

definition is_major :: "facility \<Rightarrow> bool" where
  "is_major facility = (fac_is_major_source facility = Some True)"

definition reason_about_gap_severity ::
  "(string \<Rightarrow> py_error + py_datetime) \<Rightarrow> ChainOfThoughtReasoner \<Rightarrow> gap \<Rightarrow> facility \<Rightarrow> datetime
     \<Rightarrow> (string \<times> real \<times> ReasoningChain) \<times> ChainOfThoughtReasoner" where
  "reason_about_gap_severity fromisoformat self gap facility now =
     (let (chain0, self1) =
            start_chain self (''sev_'' @ get_or ''unknown'' (g_id gap))
              (''What is the severity of gap: '' @ get_or ''Unknown'' (g_title gap) @ ''?'') now;
          chain1 = snd (add_step chain0 OBSERVATION
            [Txt ''Analyzing gap: '', Txt (get_or ''Unknown'' (g_title gap)), Txt '' at '',
             Txt (get_or ''Unknown facility'' (fac_name facility))]
            1
            (Some [[Txt ''Gap type: '', Txt (get_or ''unknown'' (g_gap_type gap))],
                   [Txt ''Regulation: '', Txt (get_or ''unknown'' (g_regulation_id gap))]]) now);
          (deadline_severity, deadline_confidence, chain2) =
             deadline_analysis fromisoformat now gap chain1;
          regulation_id = lower (get_or [] (g_regulation_id gap));
          (enforcement_risk, enforcement_confidence) = enforcement_analysis gap;
          chain3 = snd (add_step chain2 ANALYSIS
            [Txt ''Enforcement risk assessment: '', Txt (upper enforcement_risk)]
            enforcement_confidence
            (Some [[Txt ''Regulation: '', Txt regulation_id],
                   [Txt ''EPA enforcement priority: '',
                    Txt (if enforcement_risk = ''high'' then ''YES'' else ''NORMAL'')]]) now);
          (facility_risk, chain4) =
             (if is_major facility then
                (''high'', snd (add_step chain3 ANALYSIS
                   [Txt ''Facility is a Major Source - higher regulatory scrutiny'']
                   (85 / 100)
                   (Some [[Txt ''Major source status triggers additional requirements'']]) now))
              else (''medium'', chain3));
          factors = [deadline_severity, enforcement_risk, facility_risk];
          avg_score = avg_score_of factors;
          final_severity = bucket_severity avg_score;
          final_confidence = (deadline_confidence + enforcement_confidence + 7 / 10) / 3;
          chain5 = snd (add_step chain4 INFERENCE
            [Txt ''Combined severity assessment: '', Txt (upper final_severity)]
            final_confidence
            (Some [[Txt ''Deadline factor: '', Txt deadline_severity],
                   [Txt ''Enforcement factor: '', Txt enforcement_risk],
                   [Txt ''Facility factor: '', Txt facility_risk],
                   [Txt ''Average score: '', Fix2 avg_score]]) now);
          chain6 = snd (add_step chain5 VALIDATION
            [Txt ''Severity determination validated with '', Fix0 (final_confidence * 100),
             Txt ''% confidence'']
            final_confidence
            (Some [[Txt ''All '', IntP (int (length factors)), Txt '' risk factors considered''],
                   [Txt ''Final severity: '', Txt (upper final_severity)]]) now);
          chain7 = complete chain6 [Txt (upper final_severity)] final_confidence now
      in ((final_severity, final_confidence, chain7), store_chain self1 chain7))"

subsection \<open>Remediation cost of a gap\<close>

text \<open>
  The pattern \<open>\b(\d+)\s*(?:controller|tank|vessel|source|unit)\<close>. A match starts at a
  digit that begins the string or follows a character outside \<open>\w\<close>; it takes the whole
  run of digits and the whole run of whitespace (after a shorter run the next character
  is a digit or a space, with which no unit word starts) and then one of the unit words.
\<close>

definition is_digit :: "char \<Rightarrow> bool" where
  "is_digit c = (c \<in> set ''0123456789'')"

definition is_space :: "char \<Rightarrow> bool" where
  "is_space c =
     (c \<in> set [CHR '' '', CHR 0x09, CHR 0x0A, CHR 0x0B, CHR 0x0C, CHR 0x0D,
                CHR 0x1C, CHR 0x1D, CHR 0x1E, CHR 0x1F])"

definition is_word :: "char \<Rightarrow> bool" where
  "is_word c =
     (c \<in> set ''abcdefghijklmnopqrstuvwxyzABCDEFGHIJKLMNOPQRSTUVWXYZ0123456789_'')"

definition unit_words :: "string list" where
  "unit_words = [''controller'', ''tank'', ''vessel'', ''source'', ''unit'']"

text \<open>A match of the pattern at the head of \<open>s\<close>: its group and its length.\<close>

definition match_here :: "string \<Rightarrow> (string \<times> nat) option" where
  "match_here s =
     (let digits = takeWhile is_digit s;
          rest = dropWhile is_digit s;
          spaces = takeWhile is_space rest;
          tail = dropWhile is_space rest
      in if digits = [] then None
         else (case find (\<lambda>w. startswith tail w) unit_words of
                 None \<Rightarrow> None
               | Some w \<Rightarrow> Some (digits, length digits + length spaces + length w)))"

text \<open>
  \<open>re.findall\<close>: the groups of the matches from left to right, none overlapping.
  \<open>skip\<close> counts the characters of the last match still to pass, \<open>prev\<close> says whether
  the character before the head is in \<open>\w\<close>.
\<close>

fun findall_from :: "nat \<Rightarrow> bool \<Rightarrow> string \<Rightarrow> string list" where
  "findall_from skip prev [] = []"
| "findall_from skip prev (c # cs) =
     (if skip > 0 then findall_from (skip - 1) (is_word c) cs
      else if \<not> prev \<and> is_digit c then
        (case match_here (c # cs) of
           None \<Rightarrow> findall_from 0 (is_word c) cs
         | Some (digits, n) \<Rightarrow> digits # findall_from (n - 1) (is_word c) cs)
      else findall_from 0 (is_word c) cs)"

definition findall_quantity :: "string \<Rightarrow> string list" where
  "findall_quantity s = findall_from 0 False s"

text \<open>\<open>int(s)\<close> on a string of decimal digits.\<close>

definition digit_value :: "char \<Rightarrow> nat" where
  "digit_value c = get_or 0 (map_of (zip ''0123456789'' [0, 1, 2, 3, 4, 5, 6, 7, 8, 9]) c)"

definition int_of_digits :: "string \<Rightarrow> int" where
  "int_of_digits s = int (foldl (\<lambda>acc c. 10 * acc + digit_value c) 0 s)"

text \<open>A similar past gap: the two keys the method reads.\<close>

record similar_gap =
  sg_actual_cost :: "real option"
  sg_estimated_cost :: "real option"

text \<open>Truth of an optional number: an absent key, \<open>None\<close> and \<open>0\<close> are false.\<close>

definition truthy :: "real option \<Rightarrow> bool" where
  "truthy x = (case x of None \<Rightarrow> False | Some v \<Rightarrow> v \<noteq> 0)"

definition has_cost :: "similar_gap \<Rightarrow> bool" where
  "has_cost g = (truthy (sg_actual_cost g) \<or> truthy (sg_estimated_cost g))"

text \<open>\<open>g.get("actual_cost") or g.get("estimated_cost", 0)\<close>.\<close>

definition cost_of :: "similar_gap \<Rightarrow> real" where
  "cost_of g =
     (if truthy (sg_actual_cost g) then get_or 0 (sg_actual_cost g)
      else get_or 0 (sg_estimated_cost g))"

definition similar_costs_of :: "similar_gap list \<Rightarrow> real list" where
  "similar_costs_of similar_gaps = map cost_of (filter has_cost similar_gaps)"

text \<open>\<open>if similar_gaps\<close>: \<open>None\<close> and the empty list are false.\<close>

definition supplied :: "similar_gap list option \<Rightarrow> bool" where
  "supplied similar_gaps = (case similar_gaps of None \<Rightarrow> False | Some gs \<Rightarrow> gs \<noteq> [])"

text \<open>The cost table, in the order in which the dictionary is written and iterated.\<close>

definition cost_estimates :: "(string \<times> real \<times> real) list" where
  "cost_estimates =
     [(''ldar'', 3000, 8000),
      (''pneumatic'', 500, 2000),
      (''storage'', 25000, 75000),
      (''permit'', 10000, 25000),
      (''dehydrator'', 40000, 80000),
      (''monitoring'', 5000, 15000),
      (''documentation'', 2000, 5000)]"

text \<open>Step 1: the \<open>for\<close> loop with \<open>break\<close> and its \<open>else\<close>.\<close>

definition identify_gap_type :: "string \<Rightarrow> string \<times> real \<times> real" where
  "identify_gap_type gap_title =
     (case find (\<lambda>(gap_type_key, low, high). str_in gap_type_key gap_title) cost_estimates of
        Some (gap_type_key, low, high) \<Rightarrow> (gap_type_key, low, high)
      | None \<Rightarrow> (''unknown'', 5000, 20000))"

text \<open>Step 2: the multiplier, 1 unless the pattern matches.\<close>

definition quantity_multiplier :: "string \<Rightarrow> int" where
  "quantity_multiplier description =
     (case findall_quantity (lower description) of
        [] \<Rightarrow> 1
      | n # ns \<Rightarrow> int_of_digits n)"

text \<open>Step 3: the base range after the blend with the historical average, if there is one.\<close>

definition blend_history :: "similar_gap list option \<Rightarrow> real \<times> real \<Rightarrow> real \<times> real" where
  "blend_history similar_gaps base =
     (if supplied similar_gaps then
        (let similar_costs = similar_costs_of (get_or [] similar_gaps)
         in if similar_costs \<noteq> [] then
              (let avg_similar = sum_list similar_costs / real (length similar_costs)
               in ((fst base + avg_similar * (8 / 10)) / 2, (snd base + avg_similar * (12 / 10)) / 2))
            else base)
      else base)"

text \<open>
  The confidence of the estimate, from the three tests at the end of the method, with the
  sums read exactly: this tells which adjustments are applied and when. The double that the
  sums produce is \<open>cost_confidence_binary64\<close> below; it is smaller by at most
  \<open>2 * 10^-16\<close>.
\<close>

definition cost_confidence :: "string \<Rightarrow> similar_gap list option \<Rightarrow> int \<Rightarrow> real" where
  "cost_confidence gap_type similar_gaps multiplier =
     (let confidence = 7 / 10;
          confidence = (if gap_type \<noteq> ''unknown'' then confidence + 1 / 10 else confidence);
          confidence = (if supplied similar_gaps then confidence + 1 / 10 else confidence);
          confidence = (if multiplier > 1 then confidence - 5 / 100 else confidence)
      in confidence)"

definition reason_about_remediation_cost ::
  "ChainOfThoughtReasoner \<Rightarrow> gap \<Rightarrow> similar_gap list option \<Rightarrow> datetime
     \<Rightarrow> (real \<times> real \<times> ReasoningChain) \<times> ChainOfThoughtReasoner" where
  "reason_about_remediation_cost self gap similar_gaps now =
     (let (chain0, self1) =
            start_chain self (''cost_'' @ get_or ''unknown'' (g_id gap))
              (''What is the estimated remediation cost for: ''
                 @ get_or ''Unknown'' (g_title gap) @ ''?'') now;
          gap_title = lower (get_or [] (g_title gap));
          (gap_type, base_low, base_high) = identify_gap_type gap_title;
          chain1 = snd (add_step chain0 OBSERVATION
            [Txt ''Gap type identified: '',
             Txt (if gap_type \<noteq> ''unknown'' then gap_type else ''general compliance'')]
            (if gap_type \<noteq> ''unknown'' then 8 / 10 else 5 / 10)
            (Some [[Txt ''Title keywords: '', Txt (take 50 gap_title)]]) now);
          description = get_or [] (g_description gap);
          numbers = findall_quantity (lower description);
          multiplier = quantity_multiplier description;
          chain2 = (if numbers \<noteq> [] then
                      snd (add_step chain1 ANALYSIS
                        [Txt ''Found quantity multiplier: '', IntP multiplier, Txt '' units'']
                        (75 / 100)
                        (Some [[Txt ''Extracted from: '', Txt [CHR 0x27], Txt (take 100 description),
                                Txt ''...'', Txt [CHR 0x27]]]) now)
                    else chain1);
          similar_costs = similar_costs_of (get_or [] similar_gaps);
          chain3 = (if supplied similar_gaps \<and> similar_costs \<noteq> [] then
                      snd (add_step chain2 ANALYSIS
                        [Txt ''Found '', IntP (int (length similar_costs)),
                         Txt '' similar historical gaps'']
                        (85 / 100)
                        (Some [[Txt ''Average historical cost: $'',
                                Comma0 (sum_list similar_costs / real (length similar_costs))]]) now)
                    else chain2);
          (base_low, base_high) = blend_history similar_gaps (base_low, base_high);
          estimated_cost = ((base_low + base_high) / 2) * real_of_int multiplier;
          cost_range = (base_low * real_of_int multiplier, base_high * real_of_int multiplier);
          confidence = cost_confidence gap_type similar_gaps multiplier;
          chain4 = snd (add_step chain3 INFERENCE
            [Txt ''Estimated cost: $'', Comma0 estimated_cost, Txt '' (range: $'',
             Comma0 (fst cost_range), Txt '' - $'', Comma0 (snd cost_range), Txt '')'']
            confidence
            (Some [[Txt ''Base range: $'', Comma0 base_low, Txt '' - $'', Comma0 base_high],
                   [Txt ''Multiplier: '', IntP multiplier, Txt ''x''],
                   [Txt ''Gap type: '', Txt gap_type]]) now);
          chain5 = complete chain4 [Txt ''$'', Comma0 estimated_cost] confidence now
      in ((estimated_cost, confidence, chain5), store_chain self1 chain5))"

subsection \<open>Binary floating point\<close>

text \<open>
  A Python \<open>float\<close> is an IEEE 754 binary64 number, and every operation on floats returns
  the double nearest to the exact result, a tie going to the even significand. The
  definitions above read the arithmetic exactly, which tells which operations a method
  performs on which operands. A bound on the float that comes back is decided by the
  rounding, so the lines that compute the confidence of the cost estimate are read a
  second time, as the double arithmetic that they are.

  \<open>binary64 x\<close> is the double nearest to \<open>x\<close>: the magnitude is scaled by powers of two
  into \<open>[2^52, 2^53)\<close>, the exponent not falling below \<open>-1074\<close> (below \<open>2^-1022\<close> the doubles
  are evenly spaced), rounded to an integer and scaled back. The fuel covers every exponent
  of the format. Overflow to infinity is outside the model; the values here are below 1.
\<close>

definition round_half_even :: "real \<Rightarrow> int" where
  "round_half_even x =
     (let f = \<lfloor>x\<rfloor>;
          d = x - real_of_int f
      in if d < 1 / 2 then f
         else if d > 1 / 2 then f + 1
         else if even f then f else f + 1)"

fun normalise :: "nat \<Rightarrow> real \<Rightarrow> int \<Rightarrow> real \<times> int" where
  "normalise 0 m e = (m, e)"
| "normalise (Suc fuel) m e =
     (if m < 2 ^ 52 \<and> - 1074 < e then normalise fuel (m * 2) (e - 1)
      else if 2 ^ 53 \<le> m then normalise fuel (m / 2) (e + 1)
      else (m, e))"

definition pow2 :: "int \<Rightarrow> real" where
  "pow2 e = (if 0 \<le> e then 2 ^ nat e else 1 / 2 ^ nat (- e))"

definition binary64 :: "real \<Rightarrow> real" where
  "binary64 x =
     (let (m, e) = normalise 2200 \<bar>x\<bar> 0
      in sgn x * real_of_int (round_half_even m) * pow2 e)"

text \<open>\<open>x + y\<close> and \<open>x - y\<close> on floats.\<close>

definition float_add :: "real \<Rightarrow> real \<Rightarrow> real" where
  "float_add x y = binary64 (x + y)"

definition float_sub :: "real \<Rightarrow> real \<Rightarrow> real" where
  "float_sub x y = binary64 (x - y)"

text \<open>
  The lines \<open>confidence = 0.7\<close>, \<open>confidence += 0.1\<close> (twice) and \<open>confidence -= 0.05\<close> of
  \<open>reason_about_remediation_cost\<close> on doubles: a literal is the double nearest to the
  decimal that is written.
\<close>

definition cost_confidence_binary64 :: "string \<Rightarrow> similar_gap list option \<Rightarrow> int \<Rightarrow> real" where
  "cost_confidence_binary64 gap_type similar_gaps multiplier =
     (let confidence = binary64 (7 / 10);
          confidence = (if gap_type \<noteq> ''unknown'' then float_add confidence (binary64 (1 / 10))
                        else confidence);
          confidence = (if supplied similar_gaps then float_add confidence (binary64 (1 / 10))
                        else confidence);
          confidence = (if multiplier > 1 then float_sub confidence (binary64 (5 / 100))
                        else confidence)
      in confidence)"

text \<open>
  The double that \<open>reason_about_remediation_cost\<close> returns as its confidence. The gap
  type, the test on the similar gaps and the multiplier involve no float and are those
  of the method.
\<close>

definition remediation_confidence_binary64 :: "gap \<Rightarrow> similar_gap list option \<Rightarrow> real" where
  "remediation_confidence_binary64 gap similar_gaps =
     cost_confidence_binary64
       (fst (identify_gap_type (lower (get_or [] (g_title gap)))))
       similar_gaps
       (quantity_multiplier (get_or [] (g_description gap)))"

subsection \<open>The confidence calibrator\<close>

text \<open>
  A prediction record. The predicted and the actual value are of any type \<open>'v\<close>, compared
  with \<open>==\<close>; \<open>None\<close> in \<open>pr_actual\<close> and \<open>pr_correct\<close> is Python's \<open>None\<close>.
\<close>

record 'v prediction =
  pr_id :: string
  pr_predicted :: 'v
  pr_confidence :: real
  pr_category :: string
  pr_timestamp :: datetime
  pr_actual :: "'v option"
  pr_correct :: "bool option"

record 'v ConfidenceCalibrator =
  predictions :: "'v prediction list"
  calibration_factor :: real

definition new_calibrator :: "'v ConfidenceCalibrator" where
  "new_calibrator = \<lparr>predictions = [], calibration_factor = 1\<rparr>"

definition record_prediction ::
  "'v ConfidenceCalibrator \<Rightarrow> string \<Rightarrow> 'v \<Rightarrow> real \<Rightarrow> string \<Rightarrow> datetime \<Rightarrow> 'v ConfidenceCalibrator" where
  "record_prediction self prediction_id predicted_value conf category now =
     self\<lparr>predictions := predictions self @
        [\<lparr>pr_id = prediction_id, pr_predicted = predicted_value, pr_confidence = conf,
          pr_category = category, pr_timestamp = now, pr_actual = None, pr_correct = None\<rparr>]\<rparr>"

text \<open>The loop of \<open>record_outcome\<close>: it stops at the first record with the identifier.\<close>

definition resolve :: "'v prediction \<Rightarrow> 'v \<Rightarrow> 'v prediction" where
  "resolve pred actual_value =
     pred\<lparr>pr_actual := Some actual_value, pr_correct := Some (pr_predicted pred = actual_value)\<rparr>"

fun record_outcome_loop :: "'v prediction list \<Rightarrow> string \<Rightarrow> 'v \<Rightarrow> 'v prediction list" where
  "record_outcome_loop [] prediction_id actual_value = []"
| "record_outcome_loop (pred # rest) prediction_id actual_value =
     (if pr_id pred = prediction_id then resolve pred actual_value # rest
      else pred # record_outcome_loop rest prediction_id actual_value)"

definition record_outcome ::
  "'v ConfidenceCalibrator \<Rightarrow> string \<Rightarrow> 'v \<Rightarrow> 'v ConfidenceCalibrator" where
  "record_outcome self prediction_id actual_value =
     self\<lparr>predictions := record_outcome_loop (predictions self) prediction_id actual_value\<rparr>"

text \<open>A value of the statistics dictionary; the dictionary keeps its keys in insertion order.\<close>

datatype stat = Count nat | Float real | Null

type_synonym stats = "(string \<times> stat) list"

definition is_resolved :: "'v prediction \<Rightarrow> bool" where
  "is_resolved p = (pr_correct p \<noteq> None)"

definition is_correct :: "'v prediction \<Rightarrow> bool" where
  "is_correct p = (pr_correct p = Some True)"

definition resolved_of :: "'v ConfidenceCalibrator \<Rightarrow> 'v prediction list" where
  "resolved_of self = filter is_resolved (predictions self)"

definition accuracy_of :: "'v prediction list \<Rightarrow> real" where
  "accuracy_of ps = real (length (filter is_correct ps)) / real (length ps)"

definition avg_confidence_of :: "'v prediction list \<Rightarrow> real" where
  "avg_confidence_of ps = sum_list (map pr_confidence ps) / real (length ps)"

definition calibration_ratio :: "real \<Rightarrow> real \<Rightarrow> real" where
  "calibration_ratio accuracy avg_confidence =
     (if avg_confidence > 0 then accuracy / avg_confidence else 1)"

definition buckets_of :: "'v prediction list \<Rightarrow> (string \<times> 'v prediction list) list" where
  "buckets_of resolved =
     [(''high'', filter (\<lambda>p. pr_confidence p \<ge> 8 / 10) resolved),
      (''medium'', filter (\<lambda>p. 5 / 10 \<le> pr_confidence p \<and> pr_confidence p < 8 / 10) resolved),
      (''low'', filter (\<lambda>p. pr_confidence p < 5 / 10) resolved)]"

text \<open>The body of the loop over the buckets: the three entries of a bucket that is not empty.\<close>

definition bucket_entries :: "string \<Rightarrow> 'v prediction list \<Rightarrow> stats" where
  "bucket_entries bucket_name bucket =
     (if bucket \<noteq> [] then
        (let accuracy = accuracy_of bucket;
             avg_confidence = avg_confidence_of bucket
         in [(bucket_name @ ''_accuracy'', Float accuracy),
             (bucket_name @ ''_avg_confidence'', Float avg_confidence),
             (bucket_name @ ''_calibration'', Float (calibration_ratio accuracy avg_confidence))])
      else [])"

definition calculate_calibration ::
  "'v ConfidenceCalibrator \<Rightarrow> stats \<times> 'v ConfidenceCalibrator" where
  "calculate_calibration self =
     (let resolved = resolved_of self
      in if resolved = [] then
           ([(''calibration_factor'', Float 1), (''accuracy'', Null), (''samples'', Count 0)], self)
         else
           (let results = [(''samples'', Count (length resolved))]
                  @ concat (map (\<lambda>(bucket_name, bucket). bucket_entries bucket_name bucket)
                              (buckets_of resolved));
                overall_accuracy = accuracy_of resolved;
                avg_confidence = avg_confidence_of resolved;
                factor = calibration_ratio overall_accuracy avg_confidence;
                results = results @ [(''accuracy'', Float overall_accuracy),
                                     (''avg_confidence'', Float avg_confidence),
                                     (''calibration_factor'', Float factor)]
            in (results, self\<lparr>calibration_factor := factor\<rparr>)))"

definition adjust_confidence :: "'v ConfidenceCalibrator \<Rightarrow> real \<Rightarrow> real" where
  "adjust_confidence self raw_confidence =
     (let adjusted = raw_confidence * calibration_factor self
      in max 0 (min 1 adjusted))"

subsection \<open>Concrete inputs\<close>

text \<open>
  A calibrator after three predictions, two of them under the identifier \<open>p2\<close>, and
  one outcome, which resolved the first \<open>p2\<close> as incorrect.
\<close>

definition sample_calibrator :: "string ConfidenceCalibrator" where
  "sample_calibrator =
     record_outcome
       (record_prediction
         (record_prediction
           (record_prediction new_calibrator ''p1'' ''high'' (9 / 10) ''severity'' 0)
           ''p2'' ''low'' (6 / 10) ''severity'' 1)
         ''p2'' ''high'' (7 / 10) ''severity'' 2)
       ''p2'' ''medium''"

text \<open>
  A stand-in for \<open>datetime.fromisoformat\<close> that parses one string, midnight of
  11 January 2030 at offset zero (microseconds since 1970), and raises \<open>ValueError\<close> on
  every other string. The clock reading is midnight of 1 January 2030.
\<close>

definition sample_fromisoformat :: "string \<Rightarrow> py_error + py_datetime" where
  "sample_fromisoformat s =
     (if s = ''2030-01-11T00:00:00+00:00''
      then Inr \<lparr>dt_wall = 21925 * 86400000000, dt_tzinfo = Some 0\<rparr>
      else Inl ValueError)"

definition sample_now :: datetime where
  "sample_now = 21915 * 86400000000"

definition ldar_gap :: gap where
  "ldar_gap =
     \<lparr>g_id = Some ''GAP-001'', g_title = Some ''Quarterly LDAR survey overdue'',
      g_description = Some ''Survey not performed'', g_gap_type = Some ''monitoring'',
      g_regulation_id = Some ''State-LDAR-Quarterly'',
      g_regulatory_deadline = Some ''2030-01-11T00:00:00Z''\<rparr>"

definition undated_gap :: gap where
  "undated_gap = ldar_gap\<lparr>g_regulatory_deadline := Some ''end of next quarter''\<rparr>"

definition major_facility :: facility where
  "major_facility = \<lparr>fac_name = Some ''Permian Basin Station'', fac_is_major_source = Some True\<rparr>"

text \<open>A regulation with five of the keywords in its text and a part-60 citation.\<close>

definition nsps_regulation :: regulation where
  "nsps_regulation =
     \<lparr>reg_id = Some ''REG-OOOOa'',
      reg_title = Some ''Oil and Natural Gas Sector: Emission Standards'',
      reg_description = Some ''Methane and VOC standards for new sources'',
      reg_citation = Some ''40 CFR 60 Subpart OOOOa''\<rparr>"

text \<open>
  Gaps about pneumatic controllers, one of them with \<open>LDAR\<close> in its title as well, and
  past gaps with and without a recorded cost.
\<close>

definition pneumatic_gap :: gap where
  "pneumatic_gap =
     \<lparr>g_id = Some ''GAP-002'', g_title = Some ''Pneumatic controller replacement'',
      g_description = Some ''15 controllers'', g_gap_type = Some ''equipment'',
      g_regulation_id = Some ''NSPS-OOOOa'', g_regulatory_deadline = None\<rparr>"

definition ldar_pneumatic_gap :: gap where
  "ldar_pneumatic_gap = pneumatic_gap\<lparr>g_title := Some ''LDAR survey of pneumatic controllers''\<rparr>"

definition uncosted_gap :: similar_gap where
  "uncosted_gap = \<lparr>sg_actual_cost = None, sg_estimated_cost = None\<rparr>"

definition costed_gaps :: "similar_gap list" where
  "costed_gaps =
     [\<lparr>sg_actual_cost = Some 20000, sg_estimated_cost = Some 12000\<rparr>,
      \<lparr>sg_actual_cost = None, sg_estimated_cost = Some 10000\<rparr>]"

text \<open>
  Three predictions of \<open>high\<close> at confidence \<open>0.9\<close>, two of them borne out; and a
  calibrator whose only prediction, borne out, was recorded with a negative confidence.
\<close>

definition three_predictions :: "string ConfidenceCalibrator" where
  "three_predictions =
     record_outcome
       (record_outcome
         (record_outcome
           (record_prediction
             (record_prediction
               (record_prediction new_calibrator ''a'' ''high'' (9 / 10) ''severity'' 0)
               ''b'' ''high'' (9 / 10) ''severity'' 1)
             ''c'' ''high'' (9 / 10) ''severity'' 2)
           ''a'' ''high'')
         ''b'' ''high'')
       ''c'' ''low''"

definition negative_prediction :: "string ConfidenceCalibrator" where
  "negative_prediction =
     record_outcome (record_prediction new_calibrator ''n'' ''high'' (- (1 / 2)) ''severity'' 0)
       ''n'' ''high''"

text \<open>A gap outside every bucket of the cost table, with a quantity in its description.\<close>

definition flare_gap :: gap where
  "flare_gap =
     \<lparr>g_id = Some ''GAP-003'', g_title = Some ''Flare pilot outage'',
      g_description = Some ''3 units'', g_gap_type = Some ''equipment'',
      g_regulation_id = Some ''State-Flare-Rule'', g_regulatory_deadline = None\<rparr>"

text \<open>A gap like \<open>ldar_gap\<close> under a rule of the \<open>OOOO\<close> family.\<close>

definition oooo_ldar_gap :: gap where
  "oooo_ldar_gap = ldar_gap\<lparr>g_regulation_id := Some ''NSPS-OOOOa-LDAR''\<rparr>"

subsection \<open>Step numbering\<close>

lemma steps_add_step:
  "steps (snd (add_step chain ty txt conf ev now)) =
     steps chain @ [fst (add_step chain ty txt conf ev now)]"
  by (simp add: add_step_def Let_def)

lemma step_number_add_step:
  "step_number (fst (add_step chain ty txt conf ev now)) = length (steps chain) + 1"
  by (simp add: add_step_def Let_def)

lemma steps_complete: "steps (complete chain answer conf now) = steps chain"
  by (simp add: complete_def)

lemma numbers_call_chain:
  "map step_number (steps (call_chain chain c)) =
     map step_number (steps chain) @ (if is_add_step c then [length (steps chain) + 1] else [])"
  by (cases c) (simp_all add: steps_add_step step_number_add_step steps_complete)

lemma numbers_run_calls:
  "map step_number (steps chain) = [1 ..< Suc (length (steps chain))] \<Longrightarrow>
   map step_number (steps (run_calls chain calls)) =
     [1 ..< Suc (length (steps chain) + length (filter is_add_step calls))]"
proof (induction calls arbitrary: chain)
  case Nil
  then show ?case by (simp add: run_calls_def)
next
  case (Cons c calls)
  let ?chain' = "call_chain chain c"
  have len: "length (steps ?chain') = length (steps chain) + (if is_add_step c then 1 else 0)"
    using arg_cong [OF numbers_call_chain [of chain c], of length] by simp
  have "map step_number (steps ?chain') = [1 ..< Suc (length (steps ?chain'))]"
    using Cons.prems len by (simp add: numbers_call_chain)
  from Cons.IH [OF this] len show ?case
    by (simp add: run_calls_def)
qed

text \<open>
  C9. On a chain created with the defaults of the dataclass, after any sequence of
  \<open>add_step\<close> and \<open>complete\<close> calls, the step numbers are \<open>1..n\<close> in creation order, where
  \<open>n\<close> is the number of \<open>add_step\<close> calls, and \<open>to_dict()["steps"]\<close> has \<open>n\<close> entries,
  numbered \<open>1..n\<close> as well.
\<close>

theorem step_numbers_dense:
  "map step_number (steps (run_calls (new_chain tid agent q t0) calls)) =
     [1 ..< Suc (length (filter is_add_step calls))]
   \<and> length (cd_steps (to_dict (run_calls (new_chain tid agent q t0) calls))) =
       length (filter is_add_step calls)
   \<and> map sd_step (cd_steps (to_dict (run_calls (new_chain tid agent q t0) calls))) =
       [1 ..< Suc (length (filter is_add_step calls))]"
proof -
  let ?c = "run_calls (new_chain tid agent q t0) calls"
  have fresh: "map step_number (steps (new_chain tid agent q t0)) =
      [1 ..< Suc (length (steps (new_chain tid agent q t0)))]"
    by (simp add: new_chain_def)
  have nums: "map step_number (steps ?c) = [1 ..< Suc (length (filter is_add_step calls))]"
    using numbers_run_calls [OF fresh, of calls] by (simp add: new_chain_def)
  have len: "length (steps ?c) = length (filter is_add_step calls)"
    using arg_cong [OF nums, of length] by (simp del: upt_Suc)
  have sd: "map sd_step (map step_to_dict (steps ?c)) = map step_number (steps ?c)"
    by (simp add: step_to_dict_def comp_def)
  show ?thesis
    using nums len sd by (simp add: to_dict_def)
qed

subsection \<open>Recording an outcome\<close>


lemma record_outcome_loop_no_match:
  "list_all (\<lambda>p. pr_id p \<noteq> pid) ps \<Longrightarrow> record_outcome_loop ps pid v = ps"
  by (induction ps) simp_all

lemma record_outcome_loop_first:
  "i < length ps \<Longrightarrow> pr_id (ps ! i) = pid \<Longrightarrow> (\<forall>j<i. pr_id (ps ! j) \<noteq> pid) \<Longrightarrow>
   record_outcome_loop ps pid v = ps[i := resolve (ps ! i) v]"
proof (induction ps arbitrary: i)
  case Nil
  then show ?case by simp
next
  case (Cons p ps)
  show ?case
  proof (cases i)
    case 0
    with Cons.prems show ?thesis by simp
  next
    case (Suc k)
    from Cons.prems(3) Suc have head: "pr_id p \<noteq> pid" by auto
    have "\<forall>j<k. pr_id (ps ! j) \<noteq> pid"
    proof (intro allI impI)
      fix j assume "j < k"
      then have "Suc j < i" using Suc by simp
      with Cons.prems(3) have "pr_id ((p # ps) ! Suc j) \<noteq> pid" by blast
      then show "pr_id (ps ! j) \<noteq> pid" by simp
    qed
    with Cons.IH [of k] Cons.prems Suc head show ?thesis by simp
  qed
qed

text \<open>
  C8. \<open>record_outcome\<close> rewrites the first record that carries the identifier, resolved
  or not, with the actual value and \<open>correct = (predicted == actual)\<close>, and leaves every
  other record as it is; when no record carries the identifier the calibrator is unchanged.
\<close>

theorem record_outcome_first_match:
  "(\<forall>i. i < length (predictions self) \<and> pr_id (predictions self ! i) = pid
         \<and> (\<forall>j<i. pr_id (predictions self ! j) \<noteq> pid) \<longrightarrow>
       record_outcome self pid v =
         self\<lparr>predictions := (predictions self)
           [i := (predictions self ! i)\<lparr>pr_actual := Some v,
                   pr_correct := Some (pr_predicted (predictions self ! i) = v)\<rparr>]\<rparr>)
   \<and> ((\<forall>p \<in> set (predictions self). pr_id p \<noteq> pid) \<longrightarrow> record_outcome self pid v = self)"
proof (intro conjI allI impI)
  fix i
  assume "i < length (predictions self) \<and> pr_id (predictions self ! i) = pid
         \<and> (\<forall>j<i. pr_id (predictions self ! j) \<noteq> pid)"
  then show "record_outcome self pid v =
         self\<lparr>predictions := (predictions self)
           [i := (predictions self ! i)\<lparr>pr_actual := Some v,
                   pr_correct := Some (pr_predicted (predictions self ! i) = v)\<rparr>]\<rparr>"
    using record_outcome_loop_first [of i "predictions self" pid v]
    by (simp add: record_outcome_def resolve_def)
next
  assume "\<forall>p \<in> set (predictions self). pr_id p \<noteq> pid"
  then have "list_all (\<lambda>p. pr_id p \<noteq> pid) (predictions self)"
    by (simp add: list_all_iff)
  then show "record_outcome self pid v = self"
    by (simp add: record_outcome_def record_outcome_loop_no_match)
qed

lemma sample_predictions:
  "predictions sample_calibrator =
     [\<lparr>pr_id = ''p1'', pr_predicted = ''high'', pr_confidence = 9 / 10, pr_category = ''severity'',
       pr_timestamp = 0, pr_actual = None, pr_correct = None\<rparr>,
      \<lparr>pr_id = ''p2'', pr_predicted = ''low'', pr_confidence = 6 / 10, pr_category = ''severity'',
       pr_timestamp = 1, pr_actual = Some ''medium'', pr_correct = Some False\<rparr>,
      \<lparr>pr_id = ''p2'', pr_predicted = ''high'', pr_confidence = 7 / 10, pr_category = ''severity'',
       pr_timestamp = 2, pr_actual = None, pr_correct = None\<rparr>]"
  by (simp add: sample_calibrator_def record_outcome_def record_prediction_def
      new_calibrator_def resolve_def)

theorem record_outcome_first_match_witness:
  "record_outcome sample_calibrator ''p2'' ''low'' =
     sample_calibrator\<lparr>predictions := (predictions sample_calibrator)
       [1 := (predictions sample_calibrator ! 1)\<lparr>pr_actual := Some ''low'',
                pr_correct := Some (pr_predicted (predictions sample_calibrator ! 1) = ''low'')\<rparr>]\<rparr>
   \<and> pr_correct (predictions sample_calibrator ! 1) = Some False
   \<and> pr_correct (predictions (record_outcome sample_calibrator ''p2'' ''low'') ! 1) = Some True
   \<and> predictions (record_outcome sample_calibrator ''p2'' ''low'') ! 2 =
       predictions sample_calibrator ! 2
   \<and> record_outcome sample_calibrator ''p9'' ''low'' = sample_calibrator"
proof -
  have first: "1 < length (predictions sample_calibrator)
      \<and> pr_id (predictions sample_calibrator ! 1) = ''p2''
      \<and> (\<forall>j<1. pr_id (predictions sample_calibrator ! j) \<noteq> ''p2'')"
    by (simp add: sample_predictions)
  have none: "\<forall>p \<in> set (predictions sample_calibrator). pr_id p \<noteq> ''p9''"
    by (simp add: sample_predictions)
  note fm = record_outcome_first_match [of sample_calibrator _ "''low''"]
  from fm [of "''p2''", THEN conjunct1, THEN spec, of 1, THEN mp, OF first]
  have hit: "record_outcome sample_calibrator ''p2'' ''low'' =
     sample_calibrator\<lparr>predictions := (predictions sample_calibrator)
       [1 := (predictions sample_calibrator ! 1)\<lparr>pr_actual := Some ''low'',
                pr_correct := Some (pr_predicted (predictions sample_calibrator ! 1) = ''low'')\<rparr>]\<rparr>" .
  from fm [of "''p9''", THEN conjunct2, THEN mp, OF none]
  have miss: "record_outcome sample_calibrator ''p9'' ''low'' = sample_calibrator" .
  show ?thesis
    unfolding miss hit by (simp add: sample_predictions)
qed

subsection \<open>Severity: the three factors\<close>

lemma deadline_bucket_values:
  "fst (deadline_bucket d) = ''critical'' \<or> fst (deadline_bucket d) = ''high''
   \<or> fst (deadline_bucket d) = ''medium'' \<or> fst (deadline_bucket d) = ''low''"
  by (simp add: deadline_bucket_def)

text \<open>What the deadline analysis yields, whatever chain it extends.\<close>

lemma deadline_analysis_default:
  "g_regulatory_deadline gap = None \<or> g_regulatory_deadline gap = Some []
     \<or> (\<exists>s e. g_regulatory_deadline gap = Some s \<and> f (replace_Z s) = Inl e) \<Longrightarrow>
   deadline_analysis f now gap c = (''low'', 5 / 10, c)"
  by (auto simp: deadline_analysis_def deadline_try_def split: option.splits sum.splits)

lemma deadline_analysis_parsed:
  "g_regulatory_deadline gap = Some s \<Longrightarrow> s \<noteq> [] \<Longrightarrow> f (replace_Z s) = Inr d \<Longrightarrow>
   deadline_analysis f now gap c =
     (let b = deadline_bucket (timedelta_days (replace_tzinfo_None d - now))
      in (fst b, fst (snd b),
          snd (add_step c ANALYSIS
                 [Txt ''Deadline analysis: '', Txt (upper (fst b)), Txt '' urgency'']
                 (fst (snd b)) (Some [snd (snd b)]) now)))"
  by (simp add: deadline_analysis_def deadline_try_def Let_def split_def)

lemma deadline_analysis_factor:
  "fst (deadline_analysis f now gap c) = fst (deadline_factor f now gap)"
  "fst (snd (deadline_analysis f now gap c)) = snd (deadline_factor f now gap)"
  by (simp_all add: deadline_factor_def deadline_analysis_def deadline_try_def Let_def split_def
      split: option.splits sum.splits)

lemma deadline_factor_values:
  "fst (deadline_factor f now gap) = ''critical'' \<or> fst (deadline_factor f now gap) = ''high''
   \<or> fst (deadline_factor f now gap) = ''medium'' \<or> fst (deadline_factor f now gap) = ''low''"
  using deadline_bucket_values
  by (simp add: deadline_factor_def deadline_analysis_def deadline_try_def Let_def split_def
      split: option.splits sum.splits)

lemma enforcement_analysis_values:
  "fst (enforcement_analysis gap) = ''medium'' \<or> fst (enforcement_analysis gap) = ''high''"
  by (simp add: enforcement_analysis_def Let_def split: option.splits)

lemma severity_result:
  "fst (fst (reason_about_gap_severity f self gap fac now)) =
     bucket_severity (avg_score_of
       [fst (deadline_factor f now gap), fst (enforcement_analysis gap),
        if is_major fac then ''high'' else ''medium''])"
  by (simp add: reason_about_gap_severity_def Let_def split_def deadline_analysis_factor)

lemma severity_confidence:
  "fst (snd (fst (reason_about_gap_severity f self gap fac now))) =
     (snd (deadline_factor f now gap) + snd (enforcement_analysis gap) + 7 / 10) / 3"
  by (simp add: reason_about_gap_severity_def Let_def split_def deadline_analysis_factor)

lemma score_values:
  "get_or 2 (severity_scores ''critical'') = 4" "get_or 2 (severity_scores ''high'') = 3"
  "get_or 2 (severity_scores ''medium'') = 2" "get_or 2 (severity_scores ''low'') = 1"
  by (simp_all add: severity_scores_def get_or_def)

lemma avg_score_bounds:
  assumes "ds = ''critical'' \<or> ds = ''high'' \<or> ds = ''medium'' \<or> ds = ''low''"
    and "er = ''medium'' \<or> er = ''high''"
    and "fr = ''medium'' \<or> fr = ''high''"
  shows "5 / 3 \<le> avg_score_of [ds, er, fr] \<and> avg_score_of [ds, er, fr] \<le> 10 / 3"
  using assms by (auto simp: avg_score_of_def factor_scores_def score_values)

lemma bucket_severity_mid:
  "5 / 3 \<le> a \<Longrightarrow> a \<le> 10 / 3 \<Longrightarrow> bucket_severity a = ''medium'' \<or> bucket_severity a = ''high''"
  by (simp add: bucket_severity_def)

text \<open>
  C3. The severity that \<open>reason_about_gap_severity\<close> returns is \<open>medium\<close> or \<open>high\<close>,
  never \<open>critical\<close> and never \<open>low\<close>: the enforcement and the facility factor are
  \<open>medium\<close> or \<open>high\<close>, so the average of the three scores lies between \<open>5/3\<close> and
  \<open>10/3\<close>, at least the threshold of \<open>medium\<close> and below the threshold of \<open>critical\<close>.
\<close>

theorem severity_medium_or_high:
  "(fst (enforcement_analysis gap) = ''medium'' \<or> fst (enforcement_analysis gap) = ''high'')
   \<and> 5 / 3 \<le> avg_score_of [fst (deadline_factor f now gap), fst (enforcement_analysis gap),
                   if is_major fac then ''high'' else ''medium'']
   \<and> avg_score_of [fst (deadline_factor f now gap), fst (enforcement_analysis gap),
                   if is_major fac then ''high'' else ''medium''] \<le> 10 / 3
   \<and> fst (fst (reason_about_gap_severity f self gap fac now)) =
       bucket_severity (avg_score_of [fst (deadline_factor f now gap),
         fst (enforcement_analysis gap), if is_major fac then ''high'' else ''medium''])
   \<and> (fst (fst (reason_about_gap_severity f self gap fac now)) = ''medium''
        \<or> fst (fst (reason_about_gap_severity f self gap fac now)) = ''high'')
   \<and> fst (fst (reason_about_gap_severity f self gap fac now)) \<noteq> ''critical''
   \<and> fst (fst (reason_about_gap_severity f self gap fac now)) \<noteq> ''low''"
proof -
  let ?fr = "if is_major fac then ''high'' else ''medium''"
  let ?avg = "avg_score_of [fst (deadline_factor f now gap), fst (enforcement_analysis gap), ?fr]"
  let ?sev = "fst (fst (reason_about_gap_severity f self gap fac now))"
  have fr: "?fr = ''medium'' \<or> ?fr = ''high''" by simp
  have bounds: "5 / 3 \<le> ?avg \<and> ?avg \<le> 10 / 3"
    by (rule avg_score_bounds [OF deadline_factor_values enforcement_analysis_values fr])
  have sev: "?sev = bucket_severity ?avg" by (rule severity_result)
  have mid: "?sev = ''medium'' \<or> ?sev = ''high''"
    unfolding sev using bounds by (intro bucket_severity_mid) simp_all
  then have "?sev \<noteq> ''critical''" and "?sev \<noteq> ''low''" by auto
  with enforcement_analysis_values [of gap] bounds sev mid show ?thesis by blast
qed

subsection \<open>Severity: the chain and the sample inputs\<close>

lemma type_of_add_step:
  "map step_type (steps (snd (add_step c ty txt conf ev now))) = map step_type (steps c) @ [ty]"
  by (simp add: add_step_def Let_def)

lemma conf_of_add_step:
  "map confidence (steps (snd (add_step c ty txt conf ev now))) = map confidence (steps c) @ [conf]"
  by (simp add: add_step_def Let_def)

lemma steps_start_chain: "steps (fst (start_chain self tid q now)) = []"
  by (simp add: start_chain_def new_chain_def Let_def)

lemma enforcement_undated_gap: "enforcement_analysis undated_gap = (''high'', 8 / 10)"
  by (simp add: enforcement_analysis_def undated_gap_def ldar_gap_def enforcement_keywords_def
      get_or_def lower_def lower_char_def Let_def)


lemma undated_raises: "sample_fromisoformat (replace_Z ''end of next quarter'') = Inl ValueError"
  by (simp add: sample_fromisoformat_def replace_Z_def)

lemma major_facility_is_major: "is_major major_facility"
  by (simp add: is_major_def major_facility_def)

lemma ldar_gap_parses:
  "sample_fromisoformat (replace_Z ''2030-01-11T00:00:00Z'') =
     Inr \<lparr>dt_wall = 21925 * 86400000000, dt_tzinfo = Some 0\<rparr>"
  by (simp add: sample_fromisoformat_def replace_Z_def)

text \<open>
  C7. A deadline that is missing (no key, or the empty string) or that
  \<open>fromisoformat\<close> rejects does not make \<open>reason_about_gap_severity\<close> raise: the
  exception leaves the \<open>try\<close> body and is caught there, no deadline step is appended
  (the chain is observation, enforcement analysis, the facility analysis of a major source,
  inference, validation), and the deadline factor is \<open>low\<close> with confidence \<open>0.5\<close>, from
  which severity and confidence are computed as usual.
\<close>

theorem unparseable_deadline_defaults:
  assumes "g_regulatory_deadline gap = None \<or> g_regulatory_deadline gap = Some []
     \<or> (\<exists>s e. g_regulatory_deadline gap = Some s \<and> f (replace_Z s) = Inl e)"
  shows "(\<forall>s e. f (replace_Z s) = Inl e \<longrightarrow> deadline_try f now s c = Inl e)
   \<and> deadline_analysis f now gap c = (''low'', 5 / 10, c)
   \<and> deadline_factor f now gap = (''low'', 5 / 10)
   \<and> map step_type (steps (snd (snd (fst (reason_about_gap_severity f self gap fac now))))) =
       [OBSERVATION, ANALYSIS] @ (if is_major fac then [ANALYSIS] else []) @ [INFERENCE, VALIDATION]
   \<and> fst (fst (reason_about_gap_severity f self gap fac now)) =
       bucket_severity (avg_score_of [''low'', fst (enforcement_analysis gap),
         if is_major fac then ''high'' else ''medium''])
   \<and> fst (snd (fst (reason_about_gap_severity f self gap fac now))) =
       (5 / 10 + snd (enforcement_analysis gap) + 7 / 10) / 3"
proof -
  have raised: "\<forall>s e. f (replace_Z s) = Inl e \<longrightarrow> deadline_try f now s c = Inl e"
    by (simp add: deadline_try_def)
  have ana: "deadline_analysis f now gap c' = (''low'', 5 / 10, c')" for c'
    by (rule deadline_analysis_default [OF assms])
  have fac: "deadline_factor f now gap = (''low'', 5 / 10)"
    by (simp add: deadline_factor_def ana)
  have tys: "map step_type (steps (snd (snd (fst (reason_about_gap_severity f self gap fac now))))) =
       [OBSERVATION, ANALYSIS] @ (if is_major fac then [ANALYSIS] else []) @ [INFERENCE, VALIDATION]"
    by (simp add: reason_about_gap_severity_def Let_def split_def ana complete_def
        type_of_add_step steps_start_chain)
  have sev: "fst (fst (reason_about_gap_severity f self gap fac now)) =
       bucket_severity (avg_score_of [''low'', fst (enforcement_analysis gap),
         if is_major fac then ''high'' else ''medium''])"
    using severity_result [of f self gap fac now] by (simp add: fac)
  have conf: "fst (snd (fst (reason_about_gap_severity f self gap fac now))) =
       (5 / 10 + snd (enforcement_analysis gap) + 7 / 10) / 3"
    using severity_confidence [of f self gap fac now] by (simp add: fac)
  from raised ana [of c] fac tys sev conf show ?thesis by blast
qed

theorem unparseable_deadline_defaults_witness:
  "g_regulatory_deadline undated_gap = Some ''end of next quarter''
   \<and> sample_fromisoformat (replace_Z ''end of next quarter'') = Inl ValueError
   \<and> deadline_try sample_fromisoformat sample_now ''end of next quarter'' (new_chain [] [] [] 0)
       = Inl ValueError
   \<and> deadline_factor sample_fromisoformat sample_now undated_gap = (''low'', 5 / 10)
   \<and> map step_type (steps (snd (snd (fst (reason_about_gap_severity sample_fromisoformat
         (new_reasoner ''gap_analyzer'') undated_gap major_facility sample_now))))) =
       [OBSERVATION, ANALYSIS, ANALYSIS, INFERENCE, VALIDATION]
   \<and> fst (fst (reason_about_gap_severity sample_fromisoformat
         (new_reasoner ''gap_analyzer'') undated_gap major_facility sample_now)) = ''medium''
   \<and> fst (snd (fst (reason_about_gap_severity sample_fromisoformat
         (new_reasoner ''gap_analyzer'') undated_gap major_facility sample_now))) = 2 / 3"
proof -
  have dl: "g_regulatory_deadline undated_gap = Some ''end of next quarter''"
    by (simp add: undated_gap_def)
  have hyp: "g_regulatory_deadline undated_gap = None
     \<or> g_regulatory_deadline undated_gap = Some []
     \<or> (\<exists>s e. g_regulatory_deadline undated_gap = Some s
            \<and> sample_fromisoformat (replace_Z s) = Inl e)"
    using dl undated_raises by blast
  note r = unparseable_deadline_defaults [OF hyp, of sample_now "new_chain [] [] [] 0"
      "new_reasoner ''gap_analyzer''" major_facility]
  have raised: "deadline_try sample_fromisoformat sample_now ''end of next quarter''
      (new_chain [] [] [] 0) = Inl ValueError"
    using r undated_raises by blast
  have sev: "bucket_severity (avg_score_of [''low'', ''high'', ''high'']) = ''medium''"
    by (simp add: bucket_severity_def avg_score_of_def factor_scores_def score_values)
  from r dl undated_raises raised sev show ?thesis
    by (simp add: enforcement_undated_gap major_facility_is_major)
qed

text \<open>The enforcement factor from the regulation identifier and the title.\<close>

lemma enforcement_ldar_only:
  assumes "str_in ''ldar'' (lower (get_or [] (g_regulation_id gap)))"
    and "\<not> str_in ''oooo'' (lower (get_or [] (g_regulation_id gap)))"
    and "\<not> str_in ''methane'' (lower (get_or [] (g_title gap)))"
  shows "enforcement_analysis gap = (''high'', 8 / 10)"
  using assms by (simp add: enforcement_analysis_def enforcement_keywords_def Let_def)

lemma enforcement_override:
  assumes "str_in ''oooo'' (lower (get_or [] (g_regulation_id gap)))
     \<or> str_in ''methane'' (lower (get_or [] (g_title gap)))"
  shows "enforcement_analysis gap = (''high'', 85 / 100)"
  using assms by (auto simp: enforcement_analysis_def Let_def)

lemma ldar_gap_strings:
  "lower (get_or [] (g_regulation_id ldar_gap)) = ''state-ldar-quarterly''"
  "lower (get_or [] (g_title ldar_gap)) = ''quarterly ldar survey overdue''"
  by (simp_all add: ldar_gap_def get_or_def lower_def lower_char_def)

lemma oooo_ldar_gap_strings:
  "lower (get_or [] (g_regulation_id oooo_ldar_gap)) = ''nsps-ooooa-ldar''"
  "g_regulatory_deadline oooo_ldar_gap = Some ''2030-01-11T00:00:00Z''"
  by (simp_all add: oooo_ldar_gap_def ldar_gap_def get_or_def lower_def lower_char_def)

lemma sample_days:
  "timedelta_days (replace_tzinfo_None \<lparr>dt_wall = 21925 * 86400000000, dt_tzinfo = Some 0\<rparr>
     - sample_now) = 10"
  by (simp add: timedelta_days_def replace_tzinfo_None_def sample_now_def)

text \<open>
  C1, as the code has it. The confidence that \<open>reason_about_gap_severity\<close> returns is the
  deadline confidence plus the enforcement confidence plus the constant \<open>0.7\<close>, divided
  by 3; the confidence of the facility step is not in it. For a deadline 10 days out, a
  regulation identifier that contains \<open>ldar\<close> and not \<open>oooo\<close>, a title without \<open>methane\<close>,
  and a major source: the deadline factor is \<open>critical\<close> at \<open>0.9\<close>, the enforcement factor
  \<open>high\<close> at \<open>0.8\<close>, the scores are \<open>[4, 3, 3]\<close>, their average is \<open>10/3\<close>, the severity is
  \<open>high\<close> and the confidence is \<open>0.8\<close>, although the facility step was recorded with
  \<open>0.85\<close>.
\<close>

theorem severity_confidence_formula:
  "fst (snd (fst (reason_about_gap_severity f self gap fac now))) =
     (snd (deadline_factor f now gap) + snd (enforcement_analysis gap) + 7 / 10) / 3
   \<and> (g_regulatory_deadline gap = Some s \<and> s \<noteq> [] \<and> f (replace_Z s) = Inr d
        \<and> timedelta_days (replace_tzinfo_None d - now) = 10
        \<and> str_in ''ldar'' (lower (get_or [] (g_regulation_id gap)))
        \<and> \<not> str_in ''oooo'' (lower (get_or [] (g_regulation_id gap)))
        \<and> \<not> str_in ''methane'' (lower (get_or [] (g_title gap)))
        \<and> is_major fac \<longrightarrow>
      deadline_factor f now gap = (''critical'', 9 / 10)
      \<and> enforcement_analysis gap = (''high'', 8 / 10)
      \<and> factor_scores [fst (deadline_factor f now gap), fst (enforcement_analysis gap),
           if is_major fac then ''high'' else ''medium''] = [4, 3, 3]
      \<and> avg_score_of [fst (deadline_factor f now gap), fst (enforcement_analysis gap),
           if is_major fac then ''high'' else ''medium''] = 10 / 3
      \<and> fst (fst (reason_about_gap_severity f self gap fac now)) = ''high''
      \<and> fst (snd (fst (reason_about_gap_severity f self gap fac now))) = 8 / 10
      \<and> map confidence (steps (snd (snd (fst (reason_about_gap_severity f self gap fac now))))) =
          [1, 9 / 10, 8 / 10, 85 / 100, 8 / 10, 8 / 10])"
proof (intro conjI impI)
  show "fst (snd (fst (reason_about_gap_severity f self gap fac now))) =
     (snd (deadline_factor f now gap) + snd (enforcement_analysis gap) + 7 / 10) / 3"
    by (rule severity_confidence)
next
  assume h: "g_regulatory_deadline gap = Some s \<and> s \<noteq> [] \<and> f (replace_Z s) = Inr d
        \<and> timedelta_days (replace_tzinfo_None d - now) = 10
        \<and> str_in ''ldar'' (lower (get_or [] (g_regulation_id gap)))
        \<and> \<not> str_in ''oooo'' (lower (get_or [] (g_regulation_id gap)))
        \<and> \<not> str_in ''methane'' (lower (get_or [] (g_title gap)))
        \<and> is_major fac"
  have ana: "deadline_analysis f now gap c =
      (''critical'', 9 / 10,
       snd (add_step c ANALYSIS
              [Txt ''Deadline analysis: '', Txt (upper ''critical''), Txt '' urgency'']
              (9 / 10) (Some [[Txt ''Only '', IntP 10, Txt '' days until deadline'']]) now))" for c
    using h deadline_analysis_parsed [of gap s f d now c]
    by (simp add: deadline_bucket_def Let_def)
  show df: "deadline_factor f now gap = (''critical'', 9 / 10)"
    by (simp add: deadline_factor_def ana)
  show ef: "enforcement_analysis gap = (''high'', 8 / 10)"
    using h by (intro enforcement_ldar_only) simp_all
  show "factor_scores [fst (deadline_factor f now gap), fst (enforcement_analysis gap),
           if is_major fac then ''high'' else ''medium''] = [4, 3, 3]"
    using h by (simp add: df ef factor_scores_def score_values)
  show avg: "avg_score_of [fst (deadline_factor f now gap), fst (enforcement_analysis gap),
           if is_major fac then ''high'' else ''medium''] = 10 / 3"
    using h by (simp add: df ef avg_score_of_def factor_scores_def score_values)
  show "fst (fst (reason_about_gap_severity f self gap fac now)) = ''high''"
    unfolding severity_result avg by (simp add: bucket_severity_def)
  show "fst (snd (fst (reason_about_gap_severity f self gap fac now))) = 8 / 10"
    by (simp add: severity_confidence df ef)
  show "map confidence (steps (snd (snd (fst (reason_about_gap_severity f self gap fac now))))) =
          [1, 9 / 10, 8 / 10, 85 / 100, 8 / 10, 8 / 10]"
    using h by (simp add: reason_about_gap_severity_def Let_def split_def ana ef complete_def
        conf_of_add_step steps_start_chain)
qed

theorem severity_confidence_formula_witness:
  "g_regulatory_deadline ldar_gap = Some ''2030-01-11T00:00:00Z''
   \<and> timedelta_days (replace_tzinfo_None \<lparr>dt_wall = 21925 * 86400000000, dt_tzinfo = Some 0\<rparr>
        - sample_now) = 10
   \<and> str_in ''ldar'' (lower (get_or [] (g_regulation_id ldar_gap)))
   \<and> is_major major_facility
   \<and> deadline_factor sample_fromisoformat sample_now ldar_gap = (''critical'', 9 / 10)
   \<and> enforcement_analysis ldar_gap = (''high'', 8 / 10)
   \<and> fst (fst (reason_about_gap_severity sample_fromisoformat (new_reasoner ''gap_analyzer'')
        ldar_gap major_facility sample_now)) = ''high''
   \<and> fst (snd (fst (reason_about_gap_severity sample_fromisoformat (new_reasoner ''gap_analyzer'')
        ldar_gap major_facility sample_now))) = 8 / 10
   \<and> map confidence (steps (snd (snd (fst (reason_about_gap_severity sample_fromisoformat
        (new_reasoner ''gap_analyzer'') ldar_gap major_facility sample_now))))) =
       [1, 9 / 10, 8 / 10, 85 / 100, 8 / 10, 8 / 10]"
proof -
  have dl: "g_regulatory_deadline ldar_gap = Some ''2030-01-11T00:00:00Z''"
    by (simp add: ldar_gap_def)
  have ldar: "str_in ''ldar'' (lower (get_or [] (g_regulation_id ldar_gap)))"
    by (simp add: ldar_gap_strings)
  have hyp: "g_regulatory_deadline ldar_gap = Some ''2030-01-11T00:00:00Z''
      \<and> ''2030-01-11T00:00:00Z'' \<noteq> []
      \<and> sample_fromisoformat (replace_Z ''2030-01-11T00:00:00Z'') =
           Inr \<lparr>dt_wall = 21925 * 86400000000, dt_tzinfo = Some 0\<rparr>
      \<and> timedelta_days (replace_tzinfo_None
           \<lparr>dt_wall = 21925 * 86400000000, dt_tzinfo = Some 0\<rparr> - sample_now) = 10
      \<and> str_in ''ldar'' (lower (get_or [] (g_regulation_id ldar_gap)))
      \<and> \<not> str_in ''oooo'' (lower (get_or [] (g_regulation_id ldar_gap)))
      \<and> \<not> str_in ''methane'' (lower (get_or [] (g_title ldar_gap)))
      \<and> is_major major_facility"
    using dl sample_days ldar_gap_parses major_facility_is_major
    by (simp add: ldar_gap_strings)
  from severity_confidence_formula [where f = sample_fromisoformat and gap = ldar_gap
      and fac = major_facility and now = sample_now and s = "''2030-01-11T00:00:00Z''"
      and d = "\<lparr>dt_wall = 21925 * 86400000000, dt_tzinfo = Some 0\<rparr>"
      and self = "new_reasoner ''gap_analyzer''", THEN conjunct2, THEN mp, OF hyp]
  show ?thesis
    using dl sample_days ldar major_facility_is_major by simp
qed

text \<open>
  C1 as the specification words it asks of the regulation identifier only that it
  contains \<open>ldar\<close>. Under the identifier \<open>NSPS-OOOOa-LDAR\<close> the override for the \<open>OOOO\<close>
  rules sets the enforcement confidence to \<open>0.85\<close>, and the confidence returned is
  \<open>(0.9 + 0.85 + 0.7) / 3 = 49/60\<close>, not \<open>0.8\<close>.
\<close>

theorem ldar_under_oooo_confidence:
  "g_regulatory_deadline oooo_ldar_gap = Some ''2030-01-11T00:00:00Z''
   \<and> timedelta_days (replace_tzinfo_None \<lparr>dt_wall = 21925 * 86400000000, dt_tzinfo = Some 0\<rparr>
        - sample_now) = 10
   \<and> str_in ''ldar'' (lower (get_or [] (g_regulation_id oooo_ldar_gap)))
   \<and> is_major major_facility
   \<and> deadline_factor sample_fromisoformat sample_now oooo_ldar_gap = (''critical'', 9 / 10)
   \<and> enforcement_analysis oooo_ldar_gap = (''high'', 85 / 100)
   \<and> fst (snd (fst (reason_about_gap_severity sample_fromisoformat (new_reasoner ''gap_analyzer'')
        oooo_ldar_gap major_facility sample_now))) = 49 / 60
   \<and> fst (snd (fst (reason_about_gap_severity sample_fromisoformat (new_reasoner ''gap_analyzer'')
        oooo_ldar_gap major_facility sample_now))) \<noteq> 8 / 10"
proof -
  have ldar: "str_in ''ldar'' (lower (get_or [] (g_regulation_id oooo_ldar_gap)))"
    by (simp add: oooo_ldar_gap_strings)
  have ef: "enforcement_analysis oooo_ldar_gap = (''high'', 85 / 100)"
    by (rule enforcement_override) (simp add: oooo_ldar_gap_strings)
  have df: "deadline_factor sample_fromisoformat sample_now oooo_ldar_gap = (''critical'', 9 / 10)"
    by (simp add: deadline_factor_def deadline_analysis_def deadline_try_def
        oooo_ldar_gap_strings ldar_gap_parses deadline_bucket_def timedelta_days_def
        replace_tzinfo_None_def sample_now_def Let_def)
  have conf: "fst (snd (fst (reason_about_gap_severity sample_fromisoformat
        (new_reasoner ''gap_analyzer'') oooo_ldar_gap major_facility sample_now))) = 49 / 60"
    by (simp add: severity_confidence df ef)
  show ?thesis
    unfolding conf using ldar df ef sample_days major_facility_is_major
    by (simp add: oooo_ldar_gap_strings)
qed

subsection \<open>Relevance: score, flag and steps\<close>

lemma relevance_score:
  "fst (snd (fst (reason_about_regulation_relevance self reg ti now))) =
     keyword_confidence reg * (6 / 10) + fst (cfr_analysis (get_or [] (reg_citation reg))) * (4 / 10)"
  by (simp add: reason_about_regulation_relevance_def Let_def split_def)

lemma relevance_flag:
  "fst (fst (reason_about_regulation_relevance self reg ti now)) =
     (fst (snd (fst (reason_about_regulation_relevance self reg ti now))) > 3 / 10)"
  by (simp add: reason_about_regulation_relevance_def Let_def split_def)

lemma relevance_step_types:
  "map step_type (steps (snd (snd (fst (reason_about_regulation_relevance self reg ti now))))) =
     [OBSERVATION, ANALYSIS]
     @ (if fst (cfr_analysis (get_or [] (reg_citation reg))) > 0 then [ANALYSIS] else [])
     @ [INFERENCE]
     @ (if fst (fst (reason_about_regulation_relevance self reg ti now))
           \<and> fst (snd (fst (reason_about_regulation_relevance self reg ti now))) < 5 / 10
        then [VALIDATION] else [])"
  by (simp add: reason_about_regulation_relevance_def Let_def split_def complete_def
      type_of_add_step steps_start_chain)

lemma nsps_found:
  "found_keywords nsps_regulation = [''oil'', ''gas'', ''natural gas'', ''methane'', ''voc'']"
  by (simp add: found_keywords_def nsps_regulation_def og_keywords_def get_or_def lower_def
      lower_char_def Let_def)


lemma nsps_citation: "str_in ''40 CFR 60'' (get_or [] (reg_citation nsps_regulation))"
  by (simp add: nsps_regulation_def get_or_def)

text \<open>
  C2, as the code has it. The combined score is \<open>0.6\<close> times the keyword confidence
  \<open>min(matched / 3, 1)\<close> plus \<open>0.4\<close> times the citation confidence, which is \<open>0\<close> exactly
  when no citation step is appended; the regulation is relevant when the score exceeds
  \<open>0.3\<close>; a validation step is appended exactly when it is relevant with a score below
  \<open>0.5\<close>. With three or more keywords and a citation that contains \<open>40 CFR 60\<close> the score
  is \<open>0.6 * 1.0 + 0.4 * 0.8 = 0.92\<close>, the regulation is relevant and the chain ends with
  the inference step.
\<close>

theorem relevance_combined_score:
  "fst (snd (fst (reason_about_regulation_relevance self reg ti now))) =
     6 / 10 * keyword_confidence reg + 4 / 10 * fst (cfr_analysis (get_or [] (reg_citation reg)))
   \<and> keyword_confidence reg = min (real (length (found_keywords reg)) / 3) 1
   \<and> fst (fst (reason_about_regulation_relevance self reg ti now)) =
       (fst (snd (fst (reason_about_regulation_relevance self reg ti now))) > 3 / 10)
   \<and> map step_type (steps (snd (snd (fst (reason_about_regulation_relevance self reg ti now))))) =
       [OBSERVATION, ANALYSIS]
       @ (if fst (cfr_analysis (get_or [] (reg_citation reg))) > 0 then [ANALYSIS] else [])
       @ [INFERENCE]
       @ (if fst (fst (reason_about_regulation_relevance self reg ti now))
             \<and> fst (snd (fst (reason_about_regulation_relevance self reg ti now))) < 5 / 10
          then [VALIDATION] else [])
   \<and> (3 \<le> length (found_keywords reg) \<and> str_in ''40 CFR 60'' (get_or [] (reg_citation reg)) \<longrightarrow>
        fst (snd (fst (reason_about_regulation_relevance self reg ti now))) = 92 / 100
        \<and> fst (fst (reason_about_regulation_relevance self reg ti now))
        \<and> map step_type (steps (snd (snd (fst (reason_about_regulation_relevance self reg ti now))))) =
            [OBSERVATION, ANALYSIS, ANALYSIS, INFERENCE])"
proof (intro conjI impI)
  show score: "fst (snd (fst (reason_about_regulation_relevance self reg ti now))) =
     6 / 10 * keyword_confidence reg + 4 / 10 * fst (cfr_analysis (get_or [] (reg_citation reg)))"
    by (simp add: relevance_score)
  show "keyword_confidence reg = min (real (length (found_keywords reg)) / 3) 1"
    by (simp add: keyword_confidence_def)
  show flag: "fst (fst (reason_about_regulation_relevance self reg ti now)) =
       (fst (snd (fst (reason_about_regulation_relevance self reg ti now))) > 3 / 10)"
    by (rule relevance_flag)
  show tys: "map step_type (steps (snd (snd (fst (reason_about_regulation_relevance self reg ti now))))) =
       [OBSERVATION, ANALYSIS]
       @ (if fst (cfr_analysis (get_or [] (reg_citation reg))) > 0 then [ANALYSIS] else [])
       @ [INFERENCE]
       @ (if fst (fst (reason_about_regulation_relevance self reg ti now))
             \<and> fst (snd (fst (reason_about_regulation_relevance self reg ti now))) < 5 / 10
          then [VALIDATION] else [])"
    by (rule relevance_step_types)
  assume h: "3 \<le> length (found_keywords reg) \<and> str_in ''40 CFR 60'' (get_or [] (reg_citation reg))"
  then have kc: "keyword_confidence reg = 1"
    by (simp add: keyword_confidence_def min_def)
  from h have cc: "fst (cfr_analysis (get_or [] (reg_citation reg))) = 8 / 10"
    by (simp add: cfr_analysis_def)
  show val: "fst (snd (fst (reason_about_regulation_relevance self reg ti now))) = 92 / 100"
    by (simp add: score kc cc)
  show rel: "fst (fst (reason_about_regulation_relevance self reg ti now))"
    by (simp add: flag val)
  show "map step_type (steps (snd (snd (fst (reason_about_regulation_relevance self reg ti now))))) =
            [OBSERVATION, ANALYSIS, ANALYSIS, INFERENCE]"
    unfolding tys by (simp add: val cc)
qed

theorem relevance_combined_score_witness:
  "3 \<le> length (found_keywords nsps_regulation)
   \<and> str_in ''40 CFR 60'' (get_or [] (reg_citation nsps_regulation))
   \<and> fst (snd (fst (reason_about_regulation_relevance (new_reasoner ''regulation_monitor'')
        nsps_regulation ''oil_and_gas'' 0))) = 92 / 100
   \<and> fst (fst (reason_about_regulation_relevance (new_reasoner ''regulation_monitor'')
        nsps_regulation ''oil_and_gas'' 0))
   \<and> map step_type (steps (snd (snd (fst (reason_about_regulation_relevance
        (new_reasoner ''regulation_monitor'') nsps_regulation ''oil_and_gas'' 0))))) =
       [OBSERVATION, ANALYSIS, ANALYSIS, INFERENCE]"
proof -
  have hyp: "3 \<le> length (found_keywords nsps_regulation)
      \<and> str_in ''40 CFR 60'' (get_or [] (reg_citation nsps_regulation))"
    using nsps_citation by (simp add: nsps_found)
  from relevance_combined_score [where reg = nsps_regulation
      and self = "new_reasoner ''regulation_monitor''" and ti = "''oil_and_gas''" and now = 0]
  have "3 \<le> length (found_keywords nsps_regulation)
        \<and> str_in ''40 CFR 60'' (get_or [] (reg_citation nsps_regulation)) \<longrightarrow>
      fst (snd (fst (reason_about_regulation_relevance (new_reasoner ''regulation_monitor'')
        nsps_regulation ''oil_and_gas'' 0))) = 92 / 100
      \<and> fst (fst (reason_about_regulation_relevance (new_reasoner ''regulation_monitor'')
        nsps_regulation ''oil_and_gas'' 0))
      \<and> map step_type (steps (snd (snd (fst (reason_about_regulation_relevance
        (new_reasoner ''regulation_monitor'') nsps_regulation ''oil_and_gas'' 0))))) =
       [OBSERVATION, ANALYSIS, ANALYSIS, INFERENCE]"
    by blast
  with hyp show ?thesis by blast
qed

text \<open>
  C2 as the specification words it gives the value \<open>0.68\<close> to that score. On a regulation
  with five keywords and a part-60 citation the score is not \<open>0.68\<close>.
\<close>

theorem relevance_score_not_068:
  "3 \<le> length (found_keywords nsps_regulation)
   \<and> str_in ''40 CFR 60'' (get_or [] (reg_citation nsps_regulation))
   \<and> fst (snd (fst (reason_about_regulation_relevance (new_reasoner ''regulation_monitor'')
        nsps_regulation ''oil_and_gas'' 0))) \<noteq> 68 / 100"
proof -
  have kc: "keyword_confidence nsps_regulation = 1"
    by (simp add: keyword_confidence_def nsps_found)
  have cc: "fst (cfr_analysis (get_or [] (reg_citation nsps_regulation))) = 8 / 10"
    using nsps_citation by (simp add: cfr_analysis_def)
  have "fst (snd (fst (reason_about_regulation_relevance (new_reasoner ''regulation_monitor'')
        nsps_regulation ''oil_and_gas'' 0))) = 92 / 100"
    by (simp add: relevance_score kc cc)
  then show ?thesis
    using nsps_citation by (simp add: nsps_found)
qed

subsection \<open>Cost: estimate, confidence and the inference step\<close>

lemma cost_estimate:
  "fst (fst (reason_about_remediation_cost self gap sg now)) =
     (let gap_title = lower (get_or [] (g_title gap));
          base = blend_history sg (snd (identify_gap_type gap_title));
          multiplier = quantity_multiplier (get_or [] (g_description gap))
      in ((fst base + snd base) / 2) * real_of_int multiplier)"
  by (simp add: reason_about_remediation_cost_def Let_def split_def)

lemma cost_confidence_result:
  "fst (snd (fst (reason_about_remediation_cost self gap sg now))) =
     cost_confidence (fst (identify_gap_type (lower (get_or [] (g_title gap)))))
       sg (quantity_multiplier (get_or [] (g_description gap)))"
  by (simp add: reason_about_remediation_cost_def Let_def split_def)

lemma content_last_add_step:
  "content (last (steps (snd (add_step c ty txt conf ev now)))) = txt"
  by (simp add: add_step_def Let_def)

lemma cost_inference_content:
  "content (last (steps (snd (snd (fst (reason_about_remediation_cost self gap sg now)))))) =
     (let gap_title = lower (get_or [] (g_title gap));
          base = blend_history sg (snd (identify_gap_type gap_title));
          multiplier = quantity_multiplier (get_or [] (g_description gap))
      in [Txt ''Estimated cost: $'', Comma0 (((fst base + snd base) / 2) * real_of_int multiplier),
          Txt '' (range: $'', Comma0 (fst base * real_of_int multiplier), Txt '' - $'',
          Comma0 (snd base * real_of_int multiplier), Txt '')''])"
  by (simp add: reason_about_remediation_cost_def Let_def split_def complete_def
      content_last_add_step)

lemma find_None_list_ex: "(find P xs = None) = (\<not> list_ex P xs)"
  by (induction xs) simp_all

lemma find_SomeD_set: "find P xs = Some x \<Longrightarrow> x \<in> set xs"
  by (induction xs) (auto split: if_splits)

lemma cost_keys_not_unknown: "(k, lo, hi) \<in> set cost_estimates \<Longrightarrow> k \<noteq> ''unknown''"
  by (auto simp: cost_estimates_def)

lemma gap_type_matched:
  "(fst (identify_gap_type t) \<noteq> ''unknown'') =
     list_ex (\<lambda>(gap_type_key, low, high). str_in gap_type_key t) cost_estimates"
proof (cases "find (\<lambda>(gap_type_key, low, high). str_in gap_type_key t) cost_estimates")
  case None
  then show ?thesis
    by (simp add: identify_gap_type_def find_None_list_ex [symmetric])
next
  case (Some x)
  obtain k lo hi where x: "x = (k, lo, hi)" by (cases x) auto
  from Some have "x \<in> set cost_estimates" by (rule find_SomeD_set)
  then have "k \<noteq> ''unknown''" using x cost_keys_not_unknown by blast
  moreover have "list_ex (\<lambda>(gap_type_key, low, high). str_in gap_type_key t) cost_estimates"
    using Some find_None_list_ex [of "\<lambda>(gap_type_key, low, high). str_in gap_type_key t" cost_estimates]
    by simp
  ultimately show ?thesis
    using Some x by (simp add: identify_gap_type_def)
qed

lemma blend_history_unsupplied: "\<not> supplied sg \<Longrightarrow> blend_history sg base = base"
  by (simp add: blend_history_def)

lemma multiplier_15: "quantity_multiplier ''15 controllers'' = 15"
  by (simp add: quantity_multiplier_def findall_quantity_def match_here_def unit_words_def
      is_digit_def is_space_def is_word_def lower_def lower_char_def int_of_digits_def
      digit_value_def get_or_def Let_def)

subsection \<open>Cost: what moves the confidence\<close>

lemma blend_history_changed: "blend_history sg base \<noteq> base \<Longrightarrow> supplied sg"
  using blend_history_unsupplied by blast

lemma pneumatic_title: "lower (get_or [] (g_title pneumatic_gap)) = ''pneumatic controller replacement''"
  by (simp add: pneumatic_gap_def get_or_def lower_def lower_char_def)

lemma pneumatic_type: "identify_gap_type ''pneumatic controller replacement'' = (''pneumatic'', 500, 2000)"
  by (simp add: identify_gap_type_def cost_estimates_def)

lemma pneumatic_description: "get_or [] (g_description pneumatic_gap) = ''15 controllers''"
  by (simp add: pneumatic_gap_def get_or_def)

lemma costed_costs: "similar_costs_of costed_gaps = [20000, 10000]"
  by (simp add: similar_costs_of_def costed_gaps_def has_cost_def truthy_def cost_of_def get_or_def)

lemma costed_blend: "blend_history (Some costed_gaps) (500, 2000) = (6250, 10000)"
  by (simp add: blend_history_def supplied_def costed_gaps_def [symmetric] costed_costs get_or_def Let_def)
    (simp add: costed_gaps_def)


lemma get_or_simps: "get_or d (Some v) = v" "get_or d None = d"
  by (simp_all add: get_or_def)

lemma pneumatic_confidence:
  "fst (snd (fst (reason_about_remediation_cost self pneumatic_gap sg now))) =
     (if supplied sg then 85 / 100 else 75 / 100)"
  by (simp add: cost_confidence_result pneumatic_title pneumatic_type pneumatic_description
      multiplier_15 cost_confidence_def Let_def)

lemma pneumatic_estimate:
  "fst (fst (reason_about_remediation_cost self pneumatic_gap sg now)) =
     (fst (blend_history sg (500, 2000)) + snd (blend_history sg (500, 2000))) / 2 * 15"
  by (simp add: cost_estimate pneumatic_title pneumatic_type pneumatic_description
      multiplier_15 Let_def)

text \<open>
  C4, as the code has it. The confidence of the cost estimate is \<open>0.7\<close>, plus \<open>0.1\<close>
  exactly when the title matches one of the keyword buckets, plus \<open>0.1\<close> exactly when a
  list of similar gaps that is not empty was supplied, minus \<open>0.05\<close> exactly when the
  multiplier exceeds 1, and nothing clamps it. A base range that the historical blend
  changed implies that similar gaps were supplied, so the bonus is there whenever
  historical data was used.
\<close>

theorem cost_confidence_adjustments:
  "fst (snd (fst (reason_about_remediation_cost self gap sg now))) =
     7 / 10
     + (if list_ex (\<lambda>(gap_type_key, low, high).
              str_in gap_type_key (lower (get_or [] (g_title gap)))) cost_estimates
        then 1 / 10 else 0)
     + (if supplied sg then 1 / 10 else 0)
     - (if quantity_multiplier (get_or [] (g_description gap)) > 1 then 5 / 100 else 0)
   \<and> (blend_history sg base \<noteq> base \<longrightarrow> supplied sg)"
proof
  have "cost_confidence gt sg m =
      7 / 10 + (if gt \<noteq> ''unknown'' then 1 / 10 else 0) + (if supplied sg then 1 / 10 else 0)
        - (if m > 1 then 5 / 100 else 0)" for gt m
    by (simp add: cost_confidence_def Let_def)
  then show "fst (snd (fst (reason_about_remediation_cost self gap sg now))) =
     7 / 10
     + (if list_ex (\<lambda>(gap_type_key, low, high).
              str_in gap_type_key (lower (get_or [] (g_title gap)))) cost_estimates
        then 1 / 10 else 0)
     + (if supplied sg then 1 / 10 else 0)
     - (if quantity_multiplier (get_or [] (g_description gap)) > 1 then 5 / 100 else 0)"
    by (simp only: cost_confidence_result gap_type_matched)
  show "blend_history sg base \<noteq> base \<longrightarrow> supplied sg"
    using blend_history_changed by blast
qed

theorem cost_confidence_adjustments_witness:
  "blend_history (Some costed_gaps) (500, 2000) = (6250, 10000)
   \<and> supplied (Some costed_gaps)
   \<and> fst (snd (fst (reason_about_remediation_cost (new_reasoner ''gap_analyzer'') pneumatic_gap
        (Some costed_gaps) 0))) = 85 / 100"
proof -
  have changed: "blend_history (Some costed_gaps) (500, 2000) \<noteq> (500, 2000)"
    by (simp add: costed_blend)
  note r = cost_confidence_adjustments [where sg = "Some costed_gaps" and base = "(500, 2000)"
      and gap = pneumatic_gap and self = "new_reasoner ''gap_analyzer''" and now = 0]
  from r [THEN conjunct2, THEN mp, OF changed] have sup: "supplied (Some costed_gaps)" .
  from r [THEN conjunct1] sup
  have "fst (snd (fst (reason_about_remediation_cost (new_reasoner ''gap_analyzer'') pneumatic_gap
        (Some costed_gaps) 0))) = 85 / 100"
    by (simp add: pneumatic_title pneumatic_description multiplier_15 cost_estimates_def)
  with sup show ?thesis by (simp add: costed_blend)
qed

text \<open>
  C4 as the specification words it grants the bonus only if historical data was used. Past
  gaps that carry no cost leave the base range and the estimate as they are and add no
  step to the chain, and the confidence still rises from \<open>0.75\<close> to \<open>0.85\<close>.
\<close>

theorem confidence_bonus_without_history:
  "similar_costs_of [uncosted_gap] = []
   \<and> blend_history (Some [uncosted_gap]) (500, 2000) = (500, 2000)
   \<and> fst (fst (reason_about_remediation_cost (new_reasoner ''gap_analyzer'') pneumatic_gap
        (Some [uncosted_gap]) 0)) =
      fst (fst (reason_about_remediation_cost (new_reasoner ''gap_analyzer'') pneumatic_gap None 0))
   \<and> map step_type (steps (snd (snd (fst (reason_about_remediation_cost
        (new_reasoner ''gap_analyzer'') pneumatic_gap (Some [uncosted_gap]) 0))))) =
      [OBSERVATION, ANALYSIS, INFERENCE]
   \<and> fst (snd (fst (reason_about_remediation_cost (new_reasoner ''gap_analyzer'') pneumatic_gap
        None 0))) = 75 / 100
   \<and> fst (snd (fst (reason_about_remediation_cost (new_reasoner ''gap_analyzer'') pneumatic_gap
        (Some [uncosted_gap]) 0))) = 85 / 100"
proof -
  have none: "similar_costs_of [uncosted_gap] = []"
    by (simp add: similar_costs_of_def uncosted_gap_def has_cost_def truthy_def)
  have blend: "blend_history (Some [uncosted_gap]) (500, 2000) = (500, 2000)"
    by (simp add: blend_history_def none get_or_def Let_def)
  have blend0: "blend_history None (500, 2000) = (500, 2000)"
    by (simp add: blend_history_def supplied_def)
  have numbers: "findall_quantity (lower ''15 controllers'') \<noteq> []"
    using multiplier_15
    by (auto simp: quantity_multiplier_def int_of_digits_def split: list.splits)
  have tys: "map step_type (steps (snd (snd (fst (reason_about_remediation_cost
        (new_reasoner ''gap_analyzer'') pneumatic_gap (Some [uncosted_gap]) 0))))) =
      [OBSERVATION, ANALYSIS, INFERENCE]"
    by (simp add: reason_about_remediation_cost_def Let_def split_def complete_def
        type_of_add_step steps_start_chain pneumatic_description numbers none get_or_simps)
  show ?thesis
    by (simp add: none blend blend0 tys pneumatic_confidence pneumatic_estimate supplied_def)
qed

subsection \<open>Cost: the estimate and its range\<close>

lemma pneumatic_bucket:
  "str_in ''pneumatic'' t \<Longrightarrow> \<not> str_in ''ldar'' t \<Longrightarrow>
   identify_gap_type t = (''pneumatic'', 500, 2000)"
  by (simp add: identify_gap_type_def cost_estimates_def)

lemma ldar_pneumatic_title:
  "lower (get_or [] (g_title ldar_pneumatic_gap)) = ''ldar survey of pneumatic controllers''"
  by (simp add: ldar_pneumatic_gap_def pneumatic_gap_def get_or_def lower_def lower_char_def)

text \<open>
  C6, as the code has it. The estimate is the midpoint of the base range times the
  multiplier, and the inference step reports the range, the two ends of the base range
  times the multiplier. For a title that contains \<open>pneumatic\<close> and does not contain
  \<open>ldar\<close> (the bucket tested before it), the description \<open>15 controllers\<close> and no similar
  gaps: the base range is \<open>(500, 2000)\<close>, the multiplier 15, the range \<open>(7500, 30000)\<close>, the
  estimate \<open>18750\<close> and the confidence \<open>0.75\<close>.
\<close>

theorem cost_estimate_and_range:
  "fst (fst (reason_about_remediation_cost self gap sg now)) =
     (let base = blend_history sg (snd (identify_gap_type (lower (get_or [] (g_title gap)))));
          multiplier = quantity_multiplier (get_or [] (g_description gap))
      in ((fst base + snd base) / 2) * real_of_int multiplier)
   \<and> content (last (steps (snd (snd (fst (reason_about_remediation_cost self gap sg now)))))) =
     (let base = blend_history sg (snd (identify_gap_type (lower (get_or [] (g_title gap)))));
          multiplier = quantity_multiplier (get_or [] (g_description gap))
      in [Txt ''Estimated cost: $'', Comma0 (((fst base + snd base) / 2) * real_of_int multiplier),
          Txt '' (range: $'', Comma0 (fst base * real_of_int multiplier), Txt '' - $'',
          Comma0 (snd base * real_of_int multiplier), Txt '')''])
   \<and> (str_in ''pneumatic'' (lower (get_or [] (g_title gap)))
        \<and> \<not> str_in ''ldar'' (lower (get_or [] (g_title gap)))
        \<and> g_description gap = Some ''15 controllers''
        \<and> \<not> supplied sg \<longrightarrow>
      identify_gap_type (lower (get_or [] (g_title gap))) = (''pneumatic'', 500, 2000)
      \<and> quantity_multiplier (get_or [] (g_description gap)) = 15
      \<and> fst (fst (reason_about_remediation_cost self gap sg now)) = 18750
      \<and> content (last (steps (snd (snd (fst (reason_about_remediation_cost self gap sg now)))))) =
          [Txt ''Estimated cost: $'', Comma0 18750, Txt '' (range: $'', Comma0 7500, Txt '' - $'',
           Comma0 30000, Txt '')'']
      \<and> fst (snd (fst (reason_about_remediation_cost self gap sg now))) = 75 / 100)"
proof (intro conjI impI)
  show "fst (fst (reason_about_remediation_cost self gap sg now)) =
     (let base = blend_history sg (snd (identify_gap_type (lower (get_or [] (g_title gap)))));
          multiplier = quantity_multiplier (get_or [] (g_description gap))
      in ((fst base + snd base) / 2) * real_of_int multiplier)"
    by (simp add: cost_estimate Let_def)
  show "content (last (steps (snd (snd (fst (reason_about_remediation_cost self gap sg now)))))) =
     (let base = blend_history sg (snd (identify_gap_type (lower (get_or [] (g_title gap)))));
          multiplier = quantity_multiplier (get_or [] (g_description gap))
      in [Txt ''Estimated cost: $'', Comma0 (((fst base + snd base) / 2) * real_of_int multiplier),
          Txt '' (range: $'', Comma0 (fst base * real_of_int multiplier), Txt '' - $'',
          Comma0 (snd base * real_of_int multiplier), Txt '')''])"
    by (simp add: cost_inference_content Let_def)
  assume h: "str_in ''pneumatic'' (lower (get_or [] (g_title gap)))
        \<and> \<not> str_in ''ldar'' (lower (get_or [] (g_title gap)))
        \<and> g_description gap = Some ''15 controllers''
        \<and> \<not> supplied sg"
  then show ty: "identify_gap_type (lower (get_or [] (g_title gap))) = (''pneumatic'', 500, 2000)"
    by (simp add: pneumatic_bucket)
  from h show m: "quantity_multiplier (get_or [] (g_description gap)) = 15"
    by (simp add: get_or_simps multiplier_15)
  from h have b: "blend_history sg (500, 2000) = (500, 2000)"
    by (simp add: blend_history_unsupplied)
  show "fst (fst (reason_about_remediation_cost self gap sg now)) = 18750"
    by (simp add: cost_estimate ty m b Let_def)
  show "content (last (steps (snd (snd (fst (reason_about_remediation_cost self gap sg now)))))) =
          [Txt ''Estimated cost: $'', Comma0 18750, Txt '' (range: $'', Comma0 7500, Txt '' - $'',
           Comma0 30000, Txt '')'']"
    by (simp add: cost_inference_content ty m b Let_def)
  from h show "fst (snd (fst (reason_about_remediation_cost self gap sg now))) = 75 / 100"
    by (simp add: cost_confidence_result ty get_or_simps multiplier_15 cost_confidence_def Let_def)
qed

theorem cost_estimate_and_range_witness:
  "str_in ''pneumatic'' (lower (get_or [] (g_title pneumatic_gap)))
   \<and> g_description pneumatic_gap = Some ''15 controllers''
   \<and> fst (fst (reason_about_remediation_cost (new_reasoner ''gap_analyzer'') pneumatic_gap None 0))
       = 18750
   \<and> content (last (steps (snd (snd (fst (reason_about_remediation_cost
        (new_reasoner ''gap_analyzer'') pneumatic_gap None 0)))))) =
       [Txt ''Estimated cost: $'', Comma0 18750, Txt '' (range: $'', Comma0 7500, Txt '' - $'',
        Comma0 30000, Txt '')'']
   \<and> fst (snd (fst (reason_about_remediation_cost (new_reasoner ''gap_analyzer'') pneumatic_gap
        None 0))) = 75 / 100"
proof -
  have hyp: "str_in ''pneumatic'' (lower (get_or [] (g_title pneumatic_gap)))
        \<and> \<not> str_in ''ldar'' (lower (get_or [] (g_title pneumatic_gap)))
        \<and> g_description pneumatic_gap = Some ''15 controllers''
        \<and> \<not> supplied None"
    by (simp add: pneumatic_title supplied_def) (simp add: pneumatic_gap_def)
  from cost_estimate_and_range [where gap = pneumatic_gap and sg = None
      and self = "new_reasoner ''gap_analyzer''" and now = 0,
      THEN conjunct2, THEN conjunct2, THEN mp, OF hyp] hyp
  show ?thesis by blast
qed

text \<open>
  C6 as the specification words it asks of the title only that it contains \<open>pneumatic\<close>.
  A title that contains \<open>ldar\<close> as well falls into the first bucket of the table, with
  base range \<open>(3000, 8000)\<close> and estimate \<open>82500\<close>.
\<close>

theorem pneumatic_title_ldar_range:
  "str_in ''pneumatic'' (lower (get_or [] (g_title ldar_pneumatic_gap)))
   \<and> g_description ldar_pneumatic_gap = Some ''15 controllers''
   \<and> identify_gap_type (lower (get_or [] (g_title ldar_pneumatic_gap))) = (''ldar'', 3000, 8000)
   \<and> fst (fst (reason_about_remediation_cost (new_reasoner ''gap_analyzer'') ldar_pneumatic_gap
        None 0)) = 82500
   \<and> fst (fst (reason_about_remediation_cost (new_reasoner ''gap_analyzer'') ldar_pneumatic_gap
        None 0)) \<noteq> 18750"
proof -
  have ty: "identify_gap_type ''ldar survey of pneumatic controllers'' = (''ldar'', 3000, 8000)"
    by (simp add: identify_gap_type_def cost_estimates_def)
  have d: "g_description ldar_pneumatic_gap = Some ''15 controllers''"
    by (simp add: ldar_pneumatic_gap_def pneumatic_gap_def)
  have b: "blend_history None (3000, 8000) = (3000, 8000)"
    by (simp add: blend_history_def supplied_def)
  have est: "fst (fst (reason_about_remediation_cost (new_reasoner ''gap_analyzer'')
      ldar_pneumatic_gap None 0)) = 82500"
    by (simp add: cost_estimate ldar_pneumatic_title ty d get_or_simps multiplier_15 b Let_def)
  show ?thesis
    by (simp add: est d ldar_pneumatic_title ty)
qed

subsection \<open>Calibration statistics\<close>

lemma calibration_unresolved:
  "resolved_of self = [] \<Longrightarrow>
   calculate_calibration self =
     ([(''calibration_factor'', Float 1), (''accuracy'', Null), (''samples'', Count 0)], self)"
  by (simp add: calculate_calibration_def Let_def)

lemma calibration_factor_stored:
  "resolved_of self \<noteq> [] \<Longrightarrow>
   calibration_factor (snd (calculate_calibration self)) =
     calibration_ratio (accuracy_of (resolved_of self)) (avg_confidence_of (resolved_of self))"
  by (simp add: calculate_calibration_def Let_def)

lemma calibration_factor_entry:
  "resolved_of self \<noteq> [] \<Longrightarrow>
   last (fst (calculate_calibration self)) =
     (''calibration_factor'',
      Float (calibration_ratio (accuracy_of (resolved_of self)) (avg_confidence_of (resolved_of self))))"
  by (simp add: calculate_calibration_def Let_def)

lemma sum_list_nonneg_conf:
  "list_all (\<lambda>p. 0 \<le> pr_confidence p) ps \<Longrightarrow> 0 \<le> sum_list (map pr_confidence ps)"
  by (induction ps) simp_all

lemma avg_confidence_nonneg:
  "list_all (\<lambda>p. 0 \<le> pr_confidence p) ps \<Longrightarrow> 0 \<le> avg_confidence_of ps"
  by (simp add: avg_confidence_of_def sum_list_nonneg_conf)

text \<open>
  With confidences in the range \<open>[0, 1]\<close> of the data model the average is not negative,
  and the guard \<open>avg_confidence > 0\<close> fails only for a denominator that is \<open>0\<close>.
\<close>

lemma calibration_ratio_nonneg:
  "0 \<le> avg \<Longrightarrow> calibration_ratio acc avg = (if avg = 0 then 1 else acc / avg)"
  by (simp add: calibration_ratio_def)


lemma three_resolved:
  "resolved_of three_predictions =
     [\<lparr>pr_id = ''a'', pr_predicted = ''high'', pr_confidence = 9 / 10, pr_category = ''severity'',
       pr_timestamp = 0, pr_actual = Some ''high'', pr_correct = Some True\<rparr>,
      \<lparr>pr_id = ''b'', pr_predicted = ''high'', pr_confidence = 9 / 10, pr_category = ''severity'',
       pr_timestamp = 1, pr_actual = Some ''high'', pr_correct = Some True\<rparr>,
      \<lparr>pr_id = ''c'', pr_predicted = ''high'', pr_confidence = 9 / 10, pr_category = ''severity'',
       pr_timestamp = 2, pr_actual = Some ''low'', pr_correct = Some False\<rparr>]"
  by (simp add: three_predictions_def resolved_of_def record_outcome_def record_prediction_def
      new_calibrator_def resolve_def is_resolved_def)

lemma three_stats:
  "accuracy_of (resolved_of three_predictions) = 2 / 3"
  "avg_confidence_of (resolved_of three_predictions) = 9 / 10"
  by (simp_all add: three_resolved accuracy_of_def avg_confidence_of_def is_correct_def)

lemma three_buckets:
  "buckets_of (resolved_of three_predictions) =
     [(''high'', resolved_of three_predictions), (''medium'', []), (''low'', [])]"
  by (simp add: three_resolved buckets_of_def)

lemma three_result:
  "fst (calculate_calibration three_predictions) =
     [(''samples'', Count 3),
      (''high_accuracy'', Float (2 / 3)), (''high_avg_confidence'', Float (9 / 10)),
      (''high_calibration'', Float (20 / 27)),
      (''accuracy'', Float (2 / 3)), (''avg_confidence'', Float (9 / 10)),
      (''calibration_factor'', Float (20 / 27))]"
proof -
  have ne: "resolved_of three_predictions \<noteq> []" by (simp add: three_resolved)
  have len: "length (resolved_of three_predictions) = 3" by (simp add: three_resolved)
  show ?thesis
    by (simp add: calculate_calibration_def Let_def ne len three_buckets bucket_entries_def
        three_stats calibration_ratio_def)
qed

lemma three_factor: "calibration_factor (snd (calculate_calibration three_predictions)) = 20 / 27"
proof -
  have ne: "resolved_of three_predictions \<noteq> []" by (simp add: three_resolved)
  show ?thesis
    by (simp add: calibration_factor_stored [OF ne] three_stats calibration_ratio_def)
qed

lemma calibration_factor_in_range:
  assumes "resolved_of self \<noteq> []"
    and "list_all (\<lambda>p. 0 \<le> pr_confidence p) (resolved_of self)"
  shows "calibration_factor (snd (calculate_calibration self)) =
     (if avg_confidence_of (resolved_of self) = 0 then 1
      else accuracy_of (resolved_of self) / avg_confidence_of (resolved_of self))"
  using assms
  by (simp add: calibration_factor_stored calibration_ratio_nonneg avg_confidence_nonneg)

text \<open>
  C5, as the code has it. Without resolved predictions \<open>calculate_calibration\<close> returns
  \<open>{calibration_factor: 1.0, accuracy: None, samples: 0}\<close> and leaves the calibrator as it
  is. Otherwise the factor is the overall accuracy divided by the overall average
  confidence when that average is greater than \<open>0\<close>, and \<open>1.0\<close> when it is not; it is the
  last entry of the result and is stored, and \<open>adjust_confidence\<close> multiplies by it and
  clamps to \<open>[0, 1]\<close>. For three resolved predictions at confidence \<open>0.9\<close>, two of them
  correct: the \<open>high\<close> bucket has accuracy \<open>2/3\<close>, average confidence \<open>0.9\<close> and ratio
  \<open>20/27\<close>, about \<open>0.741\<close>; the overall factor is the same, and \<open>adjust_confidence(0.9)\<close>
  is \<open>2/3\<close>, about \<open>0.667\<close>.
\<close>

theorem calibration_factor_computed:
  "(resolved_of self = [] \<longrightarrow>
      calculate_calibration self =
        ([(''calibration_factor'', Float 1), (''accuracy'', Null), (''samples'', Count 0)], self))
   \<and> (resolved_of self \<noteq> [] \<longrightarrow>
        calibration_factor (snd (calculate_calibration self)) =
          (if avg_confidence_of (resolved_of self) > 0
           then accuracy_of (resolved_of self) / avg_confidence_of (resolved_of self) else 1)
        \<and> last (fst (calculate_calibration self)) =
            (''calibration_factor'', Float (calibration_factor (snd (calculate_calibration self))))
        \<and> adjust_confidence (snd (calculate_calibration self)) raw =
            max 0 (min 1 (raw * calibration_factor (snd (calculate_calibration self)))))
   \<and> map_of (fst (calculate_calibration three_predictions)) ''high_accuracy'' = Some (Float (2 / 3))
   \<and> map_of (fst (calculate_calibration three_predictions)) ''high_avg_confidence''
       = Some (Float (9 / 10))
   \<and> map_of (fst (calculate_calibration three_predictions)) ''high_calibration''
       = Some (Float (20 / 27))
   \<and> map_of (fst (calculate_calibration three_predictions)) ''calibration_factor''
       = Some (Float (20 / 27))
   \<and> \<bar>20 / 27 - 741 / 1000\<bar> < (1 / 1000 :: real)
   \<and> adjust_confidence (snd (calculate_calibration three_predictions)) (9 / 10) = 2 / 3
   \<and> \<bar>2 / 3 - 667 / 1000\<bar> < (1 / 1000 :: real)"
proof (intro conjI impI)
  assume "resolved_of self = []"
  then show "calculate_calibration self =
      ([(''calibration_factor'', Float 1), (''accuracy'', Null), (''samples'', Count 0)], self)"
    by (rule calibration_unresolved)
next
  assume ne: "resolved_of self \<noteq> []"
  show "calibration_factor (snd (calculate_calibration self)) =
          (if avg_confidence_of (resolved_of self) > 0
           then accuracy_of (resolved_of self) / avg_confidence_of (resolved_of self) else 1)"
    by (simp add: calibration_factor_stored [OF ne] calibration_ratio_def)
  show "last (fst (calculate_calibration self)) =
            (''calibration_factor'', Float (calibration_factor (snd (calculate_calibration self))))"
    by (simp add: calibration_factor_stored [OF ne] calibration_factor_entry [OF ne])
  show "adjust_confidence (snd (calculate_calibration self)) raw =
            max 0 (min 1 (raw * calibration_factor (snd (calculate_calibration self))))"
    by (simp add: adjust_confidence_def Let_def)
next
  show "map_of (fst (calculate_calibration three_predictions)) ''high_accuracy'' = Some (Float (2 / 3))"
    by (simp add: three_result)
  show "map_of (fst (calculate_calibration three_predictions)) ''high_avg_confidence''
       = Some (Float (9 / 10))"
    by (simp add: three_result)
  show "map_of (fst (calculate_calibration three_predictions)) ''high_calibration''
       = Some (Float (20 / 27))"
    by (simp add: three_result)
  show "map_of (fst (calculate_calibration three_predictions)) ''calibration_factor''
       = Some (Float (20 / 27))"
    by (simp add: three_result)
  show "\<bar>20 / 27 - 741 / 1000\<bar> < (1 / 1000 :: real)" by simp
  show "adjust_confidence (snd (calculate_calibration three_predictions)) (9 / 10) = 2 / 3"
    by (simp add: adjust_confidence_def three_factor Let_def)
  show "\<bar>2 / 3 - 667 / 1000\<bar> < (1 / 1000 :: real)" by simp
qed

theorem calibration_factor_computed_witness:
  "resolved_of (new_calibrator :: string ConfidenceCalibrator) = []
   \<and> calculate_calibration (new_calibrator :: string ConfidenceCalibrator) =
       ([(''calibration_factor'', Float 1), (''accuracy'', Null), (''samples'', Count 0)],
        new_calibrator)
   \<and> length (resolved_of three_predictions) = 3
   \<and> calibration_factor (snd (calculate_calibration three_predictions)) = 20 / 27
   \<and> last (fst (calculate_calibration three_predictions)) = (''calibration_factor'', Float (20 / 27))
   \<and> adjust_confidence (snd (calculate_calibration three_predictions)) (9 / 10) = 2 / 3"
proof -
  have empty: "resolved_of (new_calibrator :: string ConfidenceCalibrator) = []"
    by (simp add: resolved_of_def new_calibrator_def)
  have ne: "resolved_of three_predictions \<noteq> []" by (simp add: three_resolved)
  note a = calibration_factor_computed [where self = "new_calibrator :: string ConfidenceCalibrator",
      THEN conjunct1, THEN mp, OF empty]
  note b = calibration_factor_computed [where self = three_predictions and raw = "9 / 10",
      THEN conjunct2, THEN conjunct1, THEN mp, OF ne]
  from b have f: "calibration_factor (snd (calculate_calibration three_predictions)) = 20 / 27"
    by (simp add: three_stats)
  from a b empty f show ?thesis
    by (simp add: three_resolved)
qed

text \<open>
  C5 as the specification words it divides unless the denominator is \<open>0\<close>. A resolved
  prediction recorded with confidence \<open>-0.5\<close> gives the average \<open>-0.5\<close>, which is not
  \<open>0\<close>, and the factor is \<open>1.0\<close>, not the quotient \<open>-2\<close>.
\<close>

theorem negative_average_factor:
  "resolved_of negative_prediction \<noteq> []
   \<and> accuracy_of (resolved_of negative_prediction) = 1
   \<and> avg_confidence_of (resolved_of negative_prediction) = - (1 / 2)
   \<and> calibration_factor (snd (calculate_calibration negative_prediction)) = 1
   \<and> calibration_factor (snd (calculate_calibration negative_prediction)) \<noteq>
       accuracy_of (resolved_of negative_prediction)
         / avg_confidence_of (resolved_of negative_prediction)"
proof -
  have r: "resolved_of negative_prediction =
     [\<lparr>pr_id = ''n'', pr_predicted = ''high'', pr_confidence = - (1 / 2),
       pr_category = ''severity'', pr_timestamp = 0, pr_actual = Some ''high'',
       pr_correct = Some True\<rparr>]"
    by (simp add: negative_prediction_def resolved_of_def record_outcome_def
        record_prediction_def new_calibrator_def resolve_def is_resolved_def)
  have ne: "resolved_of negative_prediction \<noteq> []" by (simp add: r)
  have acc: "accuracy_of (resolved_of negative_prediction) = 1"
    by (simp add: r accuracy_of_def is_correct_def)
  have avg: "avg_confidence_of (resolved_of negative_prediction) = - (1 / 2)"
    by (simp add: r avg_confidence_of_def)
  have f: "calibration_factor (snd (calculate_calibration negative_prediction)) = 1"
    by (simp add: calibration_factor_stored [OF ne] acc avg calibration_ratio_def)
  show ?thesis
    by (simp add: ne acc avg f)
qed

subsection \<open>Cost: the confidence as a double\<close>

lemma normalise_scale_up:
  "0 < m \<Longrightarrow> 2 ^ 52 \<le> m * 2 ^ j \<Longrightarrow> m * 2 ^ j < 2 ^ 53 \<Longrightarrow> j \<le> fuel \<Longrightarrow>
   - 1074 \<le> e - int j \<Longrightarrow> normalise fuel m e = (m * 2 ^ j, e - int j)"
proof (induction j arbitrary: m e fuel)
  case 0
  then show ?case by (cases fuel) simp_all
next
  case (Suc j)
  from Suc.prems obtain f where fuel: "fuel = Suc f" by (cases fuel) auto
  have "m * 2 \<le> m * 2 ^ Suc j"
    using Suc.prems(1) by (simp add: self_le_power)
  with Suc.prems(3) have small: "m < 2 ^ 52" by simp
  from Suc.prems(5) have e: "- 1074 < e" by simp
  have "normalise f (m * 2) (e - 1) = (m * 2 * 2 ^ j, e - 1 - int j)"
    using Suc.prems fuel by (intro Suc.IH) (simp_all add: mult.assoc)
  with small e fuel show ?case by (simp add: mult.assoc)
qed

lemma binary64_positive:
  assumes "0 < x" and "2 ^ 52 \<le> x * 2 ^ j" and "x * 2 ^ j < 2 ^ 53" and "j \<le> 1074"
  shows "binary64 x = real_of_int (round_half_even (x * 2 ^ j)) / 2 ^ j"
proof -
  have "normalise 2200 \<bar>x\<bar> 0 = (\<bar>x\<bar> * 2 ^ j, 0 - int j)"
    using assms by (intro normalise_scale_up) simp_all
  then show ?thesis
    using assms(1) by (simp add: binary64_def pow2_def)
qed


text \<open>The three literals and the sums that the confidence lines can form.\<close>

lemma literal_07: "binary64 (7 / 10) = 3152519739159347 / 2 ^ 52"
  by (subst binary64_positive [where j = 53]) (simp_all add: round_half_even_def Let_def)

lemma literal_01: "binary64 (1 / 10) = 3602879701896397 / 2 ^ 55"
  by (subst binary64_positive [where j = 56]) (simp_all add: round_half_even_def Let_def)

lemma literal_005: "binary64 (5 / 100) = 3602879701896397 / 2 ^ 56"
  by (subst binary64_positive [where j = 57]) (simp_all add: round_half_even_def Let_def)

lemma sum_07_01:
  "float_add (3152519739159347 / 2 ^ 52) (3602879701896397 / 2 ^ 55) = 7205759403792793 / 2 ^ 53"
  unfolding float_add_def
  by (subst binary64_positive [where j = 53]) (simp_all add: round_half_even_def Let_def)

lemma sum_08_01:
  "float_add (7205759403792793 / 2 ^ 53) (3602879701896397 / 2 ^ 55) = 2026619832316723 / 2 ^ 51"
  unfolding float_add_def
  by (subst binary64_positive [where j = 53]) (simp_all add: round_half_even_def Let_def)

lemma diff_07_005:
  "float_sub (3152519739159347 / 2 ^ 52) (3602879701896397 / 2 ^ 56) = 1463669878895411 / 2 ^ 51"
  unfolding float_sub_def
  by (subst binary64_positive [where j = 53]) (simp_all add: round_half_even_def Let_def)

lemma diff_08_005:
  "float_sub (7205759403792793 / 2 ^ 53) (3602879701896397 / 2 ^ 56) = 6755399441055743 / 2 ^ 53"
  unfolding float_sub_def
  by (subst binary64_positive [where j = 53]) (simp_all add: round_half_even_def Let_def)

lemma diff_09_005:
  "float_sub (2026619832316723 / 2 ^ 51) (3602879701896397 / 2 ^ 56) = 3828059683264921 / 2 ^ 52"
  unfolding float_sub_def
  by (subst binary64_positive [where j = 53]) (simp_all add: round_half_even_def Let_def)

lemma cost_confidence_binary64_values:
  "cost_confidence_binary64 gt sg m =
     (if gt \<noteq> ''unknown'' \<and> supplied sg then
        (if m > 1 then 3828059683264921 / 2 ^ 52 else 2026619832316723 / 2 ^ 51)
      else if gt \<noteq> ''unknown'' \<or> supplied sg then
        (if m > 1 then 6755399441055743 / 2 ^ 53 else 7205759403792793 / 2 ^ 53)
      else
        (if m > 1 then 1463669878895411 / 2 ^ 51 else 3152519739159347 / 2 ^ 52))"
proof -
  note sums = sum_07_01 sum_08_01 diff_07_005 diff_08_005 diff_09_005
  show ?thesis
    unfolding cost_confidence_binary64_def Let_def literal_07 literal_01 literal_005
    by (cases "gt = ''unknown''"; cases "supplied sg"; cases "1 < m")
      (simp_all only: sums if_True if_False simp_thms)
qed

lemma binary64_close_to_exact:
  "\<bar>cost_confidence_binary64 gt sg m - cost_confidence gt sg m\<bar> \<le> 2 / 10 ^ 16"
  unfolding cost_confidence_binary64_values
  by (simp add: cost_confidence_def Let_def)

lemma binary64_confidence_bounds:
  "65 / 100 - 1 / 10 ^ 16 \<le> cost_confidence_binary64 gt sg m
   \<and> cost_confidence_binary64 gt sg m \<le> 9 / 10"
  unfolding cost_confidence_binary64_values by simp

lemma flare_title: "lower (get_or [] (g_title flare_gap)) = ''flare pilot outage''"
  by (simp add: flare_gap_def get_or_def lower_def lower_char_def)

lemma flare_type: "identify_gap_type ''flare pilot outage'' = (''unknown'', 5000, 20000)"
  by (simp add: identify_gap_type_def cost_estimates_def)

lemma multiplier_3: "quantity_multiplier ''3 units'' = 3"
  by (simp add: quantity_multiplier_def findall_quantity_def match_here_def unit_words_def
      is_digit_def is_space_def is_word_def lower_def lower_char_def int_of_digits_def
      digit_value_def get_or_def Let_def)

text \<open>
  C10, as the code has it. Whatever the gap and the similar gaps, the double that
  \<open>reason_about_remediation_cost\<close> returns as its confidence is at most \<open>0.9\<close> and less than
  \<open>10^-16\<close> below \<open>0.65\<close>, so it lies between \<open>0\<close> and \<open>1\<close>; it is within \<open>2 * 10^-16\<close>
  of the exact sum of \<open>0.7\<close> and the adjustments.
\<close>

theorem remediation_confidence_binary64_range:
  "65 / 100 - 1 / 10 ^ 16 \<le> remediation_confidence_binary64 gap sg
   \<and> remediation_confidence_binary64 gap sg \<le> 9 / 10
   \<and> 0 \<le> remediation_confidence_binary64 gap sg
   \<and> remediation_confidence_binary64 gap sg \<le> 1
   \<and> \<bar>remediation_confidence_binary64 gap sg
        - fst (snd (fst (reason_about_remediation_cost self gap sg now)))\<bar> \<le> 2 / 10 ^ 16"
proof -
  let ?c = "remediation_confidence_binary64 gap sg"
  have b: "65 / 100 - 1 / 10 ^ 16 \<le> ?c \<and> ?c \<le> 9 / 10"
    unfolding remediation_confidence_binary64_def by (rule binary64_confidence_bounds)
  then have u: "0 \<le> ?c \<and> ?c \<le> 1" by simp
  have "\<bar>?c - fst (snd (fst (reason_about_remediation_cost self gap sg now)))\<bar> \<le> 2 / 10 ^ 16"
    unfolding remediation_confidence_binary64_def cost_confidence_result
    by (rule binary64_close_to_exact)
  with b u show ?thesis by blast
qed

text \<open>
  C10 as the specification words it puts the confidence in the closed interval from
  \<open>0.65\<close>. For a gap outside every bucket with three units and no similar gaps the
  double is \<open>0.7 - 0.05 = 0.6499999999999999\<close>, below \<open>0.65\<close>.
\<close>

theorem confidence_below_065:
  "fst (identify_gap_type (lower (get_or [] (g_title flare_gap)))) = ''unknown''
   \<and> quantity_multiplier (get_or [] (g_description flare_gap)) = 3
   \<and> remediation_confidence_binary64 flare_gap None = 1463669878895411 / 2 ^ 51
   \<and> remediation_confidence_binary64 flare_gap None < 65 / 100"
proof -
  have d: "get_or [] (g_description flare_gap) = ''3 units''"
    by (simp add: flare_gap_def get_or_def)
  have c: "remediation_confidence_binary64 flare_gap None = 1463669878895411 / 2 ^ 51"
    unfolding remediation_confidence_binary64_def cost_confidence_binary64_values
    by (simp add: flare_title flare_type d multiplier_3 supplied_def)
  show ?thesis
    unfolding c by (simp add: flare_title flare_type d multiplier_3)
qed


end
